theory Spec2Isabelle
  imports Complex_Main "HOL-Library.Log_Nat"
begin

section \<open>JavaScript numbers\<close>

text \<open>
  The services compute with JavaScript numbers. A number is modelled as a rational or one
  of the three special values of IEEE 754 that the code can produce (\<open>0 / 0\<close> is
  \<open>NaN\<close>, \<open>x / 0\<close> is an infinity). Every arithmetic operation on finite values
  rounds its exact result with a function \<open>rnd\<close>, the first argument of the operation:
  \<open>binary64\<close> is the rounding of the code as it runs (round to nearest, ties to even, 53
  bits), and \<open>exact\<close> is no rounding, for statements about exact arithmetic. Overflow to
  an infinity, subnormal numbers and the sign of zero are not modelled.
\<close>

datatype jsnum = Fin rat | NaN | PInf | NInf

definition exact :: "rat \<Rightarrow> rat" where
  "exact x = x"

definition round_half_even :: "rat \<Rightarrow> int" where
  "round_half_even k =
     (let f = \<lfloor>k\<rfloor>; d = k - of_int f
      in if d < 1 / 2 then f else if 1 / 2 < d then f + 1 else if even f then f else f + 1)"

text \<open>The exponent \<open>e\<close> with \<open>2 ^ e \<le> y < 2 ^ (e + 1)\<close>, for a positive \<open>y\<close>.\<close>

definition binary_exponent :: "rat \<Rightarrow> int" where
  "binary_exponent y =
     (let (a, b) = quotient_of y; c = bitlen a - bitlen b - 1
      in if 2 powi (c + 1) \<le> y then c + 1 else c)"

definition binary64 :: "rat \<Rightarrow> rat" where
  "binary64 x =
     (if x = 0 then 0
      else (let u = 2 powi (binary_exponent \<bar>x\<bar> - 52)
            in of_int (round_half_even (x / u)) * u))"

text \<open>A decimal literal of the source, or a decimal column read as a number.\<close>

definition js_number :: "(rat \<Rightarrow> rat) \<Rightarrow> rat \<Rightarrow> jsnum" where
  "js_number rnd x = Fin (rnd x)"

fun js_neg :: "jsnum \<Rightarrow> jsnum" where
  "js_neg (Fin a) = Fin (- a)"
| "js_neg NaN = NaN"
| "js_neg PInf = NInf"
| "js_neg NInf = PInf"

fun js_add :: "(rat \<Rightarrow> rat) \<Rightarrow> jsnum \<Rightarrow> jsnum \<Rightarrow> jsnum" where
  "js_add rnd (Fin a) (Fin b) = Fin (rnd (a + b))"
| "js_add rnd NaN _ = NaN"
| "js_add rnd _ NaN = NaN"
| "js_add rnd PInf NInf = NaN"
| "js_add rnd NInf PInf = NaN"
| "js_add rnd PInf _ = PInf"
| "js_add rnd NInf _ = NInf"
| "js_add rnd _ PInf = PInf"
| "js_add rnd _ NInf = NInf"

definition js_sub :: "(rat \<Rightarrow> rat) \<Rightarrow> jsnum \<Rightarrow> jsnum \<Rightarrow> jsnum" where
  "js_sub rnd a b = js_add rnd a (js_neg b)"

text \<open>The sign of a number that is not \<open>NaN\<close>: \<open>-1\<close>, \<open>0\<close> or \<open>1\<close>.\<close>

fun js_sign :: "jsnum \<Rightarrow> int" where
  "js_sign (Fin a) = (if a < 0 then - 1 else if a = 0 then 0 else 1)"
| "js_sign NaN = 0"
| "js_sign PInf = 1"
| "js_sign NInf = - 1"

definition inf_of_sign :: "int \<Rightarrow> jsnum" where
  "inf_of_sign s = (if s = 0 then NaN else if s < 0 then NInf else PInf)"

fun js_mul :: "(rat \<Rightarrow> rat) \<Rightarrow> jsnum \<Rightarrow> jsnum \<Rightarrow> jsnum" where
  "js_mul rnd (Fin a) (Fin b) = Fin (rnd (a * b))"
| "js_mul rnd NaN _ = NaN"
| "js_mul rnd _ NaN = NaN"
| "js_mul rnd a b = inf_of_sign (js_sign a * js_sign b)"

fun js_div :: "(rat \<Rightarrow> rat) \<Rightarrow> jsnum \<Rightarrow> jsnum \<Rightarrow> jsnum" where
  "js_div rnd (Fin a) (Fin b) =
     (if b = 0 then inf_of_sign (js_sign (Fin a)) else Fin (rnd (a / b)))"
| "js_div rnd NaN _ = NaN"
| "js_div rnd _ NaN = NaN"
| "js_div rnd (Fin a) _ = Fin 0"
| "js_div rnd a (Fin b) = (if b < 0 then js_neg a else a)"
| "js_div rnd _ _ = NaN"


text \<open>Comparisons: every comparison with \<open>NaN\<close> is false.\<close>

fun js_lt :: "jsnum \<Rightarrow> jsnum \<Rightarrow> bool" where
  "js_lt (Fin a) (Fin b) = (a < b)"
| "js_lt NaN _ = False"
| "js_lt _ NaN = False"
| "js_lt _ NInf = False"
| "js_lt PInf _ = False"
| "js_lt _ _ = True"

definition js_gt :: "jsnum \<Rightarrow> jsnum \<Rightarrow> bool" where
  "js_gt a b = js_lt b a"

definition js_le :: "jsnum \<Rightarrow> jsnum \<Rightarrow> bool" where
  "js_le a b = (a \<noteq> NaN \<and> b \<noteq> NaN \<and> \<not> js_lt b a)"

definition js_ge :: "jsnum \<Rightarrow> jsnum \<Rightarrow> bool" where
  "js_ge a b = js_le b a"

definition js_max :: "jsnum \<Rightarrow> jsnum \<Rightarrow> jsnum" where
  "js_max a b = (if a = NaN \<or> b = NaN then NaN else if js_lt a b then b else a)"

definition js_min :: "jsnum \<Rightarrow> jsnum \<Rightarrow> jsnum" where
  "js_min a b = (if a = NaN \<or> b = NaN then NaN else if js_lt b a then b else a)"

text \<open>
  \<open>Math.round\<close> rounds to the nearest integer, halves towards plus infinity, and
  \<open>Math.floor\<close> rounds down; both return the integer itself.
\<close>

fun js_round :: "jsnum \<Rightarrow> jsnum" where
  "js_round (Fin a) = Fin (of_int \<lfloor>a + 1 / 2\<rfloor>)"
| "js_round x = x"

fun js_floor :: "jsnum \<Rightarrow> jsnum" where
  "js_floor (Fin a) = Fin (of_int \<lfloor>a\<rfloor>)"
| "js_floor x = x"

text \<open>A number is falsy when it is zero or \<open>NaN\<close>.\<close>

definition js_truthy :: "jsnum \<Rightarrow> bool" where
  "js_truthy a = (a \<noteq> Fin 0 \<and> a \<noteq> NaN)"


text \<open>
  A property read from an object literal: an own property, a property inherited from
  \<open>Object.prototype\<close> (a function or an object, so truthy and \<open>NaN\<close> as a number),
  or \<open>undefined\<close>.
\<close>

datatype 'a js_property = Own 'a | Inherited | Undefined

definition object_prototype_keys :: "string list" where
  "object_prototype_keys =
     [''constructor'', ''__proto__'', ''hasOwnProperty'', ''isPrototypeOf'',
      ''propertyIsEnumerable'', ''toLocaleString'', ''toString'', ''valueOf'',
      ''__defineGetter__'', ''__defineSetter__'', ''__lookupGetter__'',
      ''__lookupSetter__'']"

definition js_get :: "(string \<times> 'a) list \<Rightarrow> string \<Rightarrow> 'a js_property" where
  "js_get obj k =
     (case map_of obj k of
        Some v \<Rightarrow> Own v
      | None \<Rightarrow> if k \<in> set object_prototype_keys then Inherited else Undefined)"

section \<open>Approval chain\<close>

text \<open>
  \<open>LoanService.createApprovalWorkflow\<close> first builds the list \<open>approvalLevels\<close> from the
  amount; \<open>LoanApprovalService.getRequiredRoleForLevel\<close> is the table used by escalation.
  Amounts are the decimal values of the column \<open>requested_amount\<close>; the thresholds
  are integers, so that comparing the decimal gives what comparing its nearest number
  gives.
\<close>

record approval_level_spec =
  level :: int
  role :: string
  required :: bool

definition approvalLevels :: "rat \<Rightarrow> approval_level_spec list" where
  "approvalLevels amount =
     (if amount \<le> 100000 then
        [\<lparr>level = 1, role = ''loan_officer'', required = True\<rparr>]
      else if amount \<le> 500000 then
        [\<lparr>level = 1, role = ''loan_officer'', required = True\<rparr>,
         \<lparr>level = 2, role = ''branch_manager'', required = True\<rparr>]
      else
        [\<lparr>level = 1, role = ''loan_officer'', required = True\<rparr>,
         \<lparr>level = 2, role = ''branch_manager'', required = True\<rparr>,
         \<lparr>level = 3, role = ''finance_manager'', required = True\<rparr>])"

definition getRequiredRoleForLevel :: "int \<Rightarrow> rat \<Rightarrow> string option" where
  "getRequiredRoleForLevel lvl amount =
     (if amount \<le> 100000 then
        (if lvl = 1 then Some ''loan_officer'' else None)
      else if amount \<le> 500000 then
        (if lvl = 1 then Some ''loan_officer''
         else if lvl = 2 then Some ''branch_manager'' else None)
      else if amount \<le> 5000000 then
        (if lvl = 1 then Some ''loan_officer''
         else if lvl = 2 then Some ''branch_manager''
         else if lvl = 3 then Some ''finance_manager'' else None)
      else
        (if lvl = 1 then Some ''loan_officer''
         else if lvl = 2 then Some ''branch_manager''
         else if lvl = 3 then Some ''finance_manager''
         else if lvl = 4 then Some ''ceo'' else None))"

section \<open>Persistence\<close>

text \<open>
  The tables the services read and write, with the columns they use. A table is the list
  of its rows; a \<open>SELECT\<close> without \<open>ORDER BY\<close> returns the matching rows in table
  order, and \<open>rows[0]\<close> is the first of them. \<open>CURRENT_TIMESTAMP\<close> reads the field
  \<open>clock\<close>, and a \<open>SERIAL\<close> key takes the next value of its sequence. Column widths
  and other constraints of the schema are not modelled.
\<close>

record loan_application =
  la_id :: nat
  la_application_id :: string
  la_customer_id :: nat
  la_loan_product_id :: nat
  la_requested_amount :: rat
  la_employment_status :: string
  la_monthly_income :: rat
  la_existing_debts :: "rat option"
  la_collateral_type :: "string option"
  la_collateral_value :: "rat option"
  la_guarantor_name :: "string option"
  la_guarantor_phone :: "string option"
  la_status :: string
  la_approved_at :: "nat option"
  la_rejected_at :: "nat option"
  la_rejection_reason :: "string option"

record loan_approval =
  ap_id :: nat
  ap_loan_application_id :: nat
  ap_approval_level :: int
  ap_required_role :: string
  ap_approved_by :: "nat option"
  ap_approved_at :: "nat option"
  ap_status :: string
  ap_comments :: "string option"
  ap_rejection_reason :: "string option"
  ap_is_required :: bool
  ap_created_at :: nat

record user_row =
  u_id :: nat
  u_role :: string

record customer_row =
  c_id :: nat
  c_kyc_status :: string
  c_kyc_approved_at :: "nat option"

record loan_product =
  lp_id :: nat
  lp_name :: string

text \<open>The \<open>details\<close> object of an audit entry, one constructor for each shape written.\<close>

datatype audit_details =
    ApprovalDetails int "string option" "string option" string
  | EscalationDetails int int string
  | LoanAccountDetails string rat
  | RiskAssessmentDetails string jsnum nat

record audit_log =
  al_user_id :: "nat option"
  al_action :: string
  al_resource :: string
  al_resource_id :: nat
  al_details :: audit_details

record recommendation =
  rec_type :: string
  rec_priority :: string
  rec_message :: string
  rec_action :: string

record ai_insights =
  fraud_score :: jsnum
  behavioral_score :: jsnum
  market_risk_score :: jsnum
  ai_recommendations :: "string list"

record risk_assessment =
  ra_id :: nat
  ra_loan_application_id :: nat
  ra_customer_id :: nat
  ra_overall_score :: jsnum
  ra_risk_level :: string
  ra_risk_factors :: "(string \<times> jsnum) list"
  ra_recommendations :: "recommendation list"
  ra_ai_insights :: ai_insights
  ra_assessed_by :: nat
  ra_created_at :: nat

record db =
  loan_applications :: "loan_application list"
  loan_approvals :: "loan_approval list"
  users :: "user_row list"
  customers :: "customer_row list"
  loan_products :: "loan_product list"
  loan_risk_assessments :: "risk_assessment list"
  audit_logs :: "audit_log list"
  loan_approvals_id_seq :: nat
  loan_risk_assessments_id_seq :: nat
  clock :: nat

datatype error =
    LoanApplicationNotFound
  | NotReviewable
  | NoPendingApproval
  | UserNotFound
  | InsufficientAuthorityForLevel
  | CeoApprovalRequired
  | CannotEscalate

fun message :: "error \<Rightarrow> string" where
  "message LoanApplicationNotFound = ''Loan application not found''"
| "message NotReviewable = ''Application is not in a reviewable status''"
| "message NoPendingApproval = ''No pending approval found for this level''"
| "message UserNotFound = ''User not found''"
| "message InsufficientAuthorityForLevel = ''Insufficient authority for this approval level''"
| "message CeoApprovalRequired = ''CEO approval required for loans above 5,000,000''"
| "message CannotEscalate = ''Cannot escalate beyond highest approval level''"

text \<open>
  \<open>transaction(callback)\<close>: \<open>BEGIN\<close>, the callback, \<open>COMMIT\<close>; an exception thrown by
  the callback rolls every change back and is thrown again. A callback returns what it
  returned or threw, with the database as its statements left it.
\<close>

definition transaction :: "(db \<Rightarrow> (error + 'a) \<times> db) \<Rightarrow> db \<Rightarrow> (error + 'a) \<times> db" where
  "transaction callback d =
     (case callback d of
        (Inl e, _) \<Rightarrow> (Inl e, d)
      | (Inr r, d') \<Rightarrow> (Inr r, d'))"

text \<open>\<open>INSERT INTO loan_approvals (...) VALUES ($1, $2, $3, 'pending', $4, CURRENT_TIMESTAMP) RETURNING *\<close>\<close>

definition insert_loan_approval :: "nat \<Rightarrow> int \<Rightarrow> string \<Rightarrow> bool \<Rightarrow> db \<Rightarrow> loan_approval \<times> db" where
  "insert_loan_approval applicationId lvl r req d =
     (let row = \<lparr>ap_id = loan_approvals_id_seq d,
                  ap_loan_application_id = applicationId,
                  ap_approval_level = lvl,
                  ap_required_role = r,
                  ap_approved_by = None,
                  ap_approved_at = None,
                  ap_status = ''pending'',
                  ap_comments = None,
                  ap_rejection_reason = None,
                  ap_is_required = req,
                  ap_created_at = clock d\<rparr>
      in (row, d\<lparr>loan_approvals := loan_approvals d @ [row],
                 loan_approvals_id_seq := Suc (loan_approvals_id_seq d)\<rparr>))"

definition createApprovalWorkflow :: "nat \<Rightarrow> rat \<Rightarrow> db \<Rightarrow> db" where
  "createApprovalWorkflow applicationId amount d =
     foldl (\<lambda>d' l. snd (insert_loan_approval applicationId (level l) (role l) (required l) d'))
       d (approvalLevels amount)"

section \<open>Approval workflow engine\<close>

record approvalData =
  decision :: string
  comments :: "string option"
  rejection_reason :: "string option"

record approval_result =
  approval :: "loan_approval option"
  application_status :: string
  workflow_complete :: bool
  next_steps :: "string list"

text \<open>\<open>value || null\<close> on an optional string: the empty string is falsy.\<close>

definition or_null :: "string option \<Rightarrow> string option" where
  "or_null v = (case v of None \<Rightarrow> None | Some s \<Rightarrow> if s = [] then None else Some s)"

definition roleHierarchy :: "(string \<times> nat) list" where
  "roleHierarchy =
     [(''loan_officer'', 1), (''branch_manager'', 2), (''finance_manager'', 3),
      (''ceo'', 4), (''admin'', 5), (''super_admin'', 6)]"

text \<open>
  \<open>roleHierarchy[role] || fallback\<close> as the number the comparison sees: an inherited
  property is truthy and converts to \<open>NaN\<close>.
\<close>

definition hierarchy_level :: "string \<Rightarrow> rat \<Rightarrow> jsnum" where
  "hierarchy_level r fallback =
     (case js_get roleHierarchy r of
        Own n \<Rightarrow> if n = 0 then Fin fallback else Fin (of_nat n)
      | Inherited \<Rightarrow> NaN
      | Undefined \<Rightarrow> Fin fallback)"

definition validateApprovalAuthority :: "nat \<Rightarrow> string \<Rightarrow> rat \<Rightarrow> db \<Rightarrow> error + unit" where
  "validateApprovalAuthority userId requiredRole loanAmount d =
     (case filter (\<lambda>u. u_id u = userId) (users d) of
        [] \<Rightarrow> Inl UserNotFound
      | user # _ \<Rightarrow>
          (let userLevel = hierarchy_level (u_role user) 0;
               requiredLevel = hierarchy_level requiredRole 999
           in if js_lt userLevel requiredLevel then Inl InsufficientAuthorityForLevel
              else if loanAmount > 5000000 \<and> u_role user \<noteq> ''ceo''
                      \<and> u_role user \<notin> set [''admin'', ''super_admin'']
                   then Inl CeoApprovalRequired
              else Inr ()))"

text \<open>\<open>INSERT INTO audit_logs (...) VALUES ($1, $2, 'loan_approval', $3, $4, true)\<close>\<close>

definition logApprovalActivity :: "nat \<Rightarrow> nat option \<Rightarrow> string \<Rightarrow> audit_details \<Rightarrow> db \<Rightarrow> db" where
  "logApprovalActivity applicationId userId action details d =
     d\<lparr>audit_logs := audit_logs d @
          [\<lparr>al_user_id = userId, al_action = action, al_resource = ''loan_approval'',
            al_resource_id = applicationId, al_details = details\<rparr>]\<rparr>"

definition createLoanAccount :: "loan_application \<Rightarrow> db \<Rightarrow> db" where
  "createLoanAccount application d =
     logApprovalActivity (la_id application) None ''loan_account_created''
       (LoanAccountDetails (la_application_id application) (la_requested_amount application)) d"

definition getNextSteps :: "string \<Rightarrow> string list" where
  "getNextSteps currentStatus =
     (if currentStatus = ''pending_approval'' then
        [''Waiting for approval from next level'', ''Risk assessment may be updated'']
      else if currentStatus = ''approved'' then
        [''Loan account will be created'', ''Disbursement process will begin'',
         ''Customer will be notified'']
      else if currentStatus = ''rejected'' then
        [''Customer will be notified of rejection'',
         ''Feedback provided for future applications'']
      else [])"

text \<open>The statements of \<open>processApproval\<close>, in the order the function issues them.\<close>

definition select_loan_application :: "nat \<Rightarrow> db \<Rightarrow> loan_application list" where
  "select_loan_application applicationId d =
     filter (\<lambda>a. la_id a = applicationId) (loan_applications d)"

definition select_pending_approval :: "nat \<Rightarrow> int \<Rightarrow> db \<Rightarrow> loan_approval list" where
  "select_pending_approval applicationId approvalLevel d =
     filter (\<lambda>r. ap_loan_application_id r = applicationId
                 \<and> ap_approval_level r = approvalLevel \<and> ap_status r = ''pending'')
       (loan_approvals d)"

definition update_approval_decision ::
  "string \<Rightarrow> nat \<Rightarrow> string option \<Rightarrow> string option \<Rightarrow> nat \<Rightarrow> db \<Rightarrow> loan_approval list \<times> db" where
  "update_approval_decision st approvedBy cm rr rid d =
     (let upd = (\<lambda>r. if ap_id r = rid
                      then r\<lparr>ap_status := st, ap_approved_by := Some approvedBy,
                             ap_approved_at := Some (clock d), ap_comments := cm,
                             ap_rejection_reason := rr\<rparr>
                      else r);
          rows = map upd (loan_approvals d)
      in (filter (\<lambda>r. ap_id r = rid) rows, d\<lparr>loan_approvals := rows\<rparr>))"

definition count_pending_required :: "nat \<Rightarrow> db \<Rightarrow> nat" where
  "count_pending_required applicationId d =
     length (filter (\<lambda>r. ap_loan_application_id r = applicationId
                         \<and> ap_status r = ''pending'' \<and> ap_is_required r)
               (loan_approvals d))"

definition set_application_approved :: "nat \<Rightarrow> db \<Rightarrow> db" where
  "set_application_approved applicationId d =
     d\<lparr>loan_applications :=
          map (\<lambda>a. if la_id a = applicationId
                    then a\<lparr>la_status := ''approved'', la_approved_at := Some (clock d)\<rparr>
                    else a)
            (loan_applications d)\<rparr>"

definition set_application_pending_approval :: "nat \<Rightarrow> db \<Rightarrow> db" where
  "set_application_pending_approval applicationId d =
     d\<lparr>loan_applications :=
          map (\<lambda>a. if la_id a = applicationId then a\<lparr>la_status := ''pending_approval''\<rparr> else a)
            (loan_applications d)\<rparr>"

definition set_application_rejected :: "string option \<Rightarrow> nat \<Rightarrow> db \<Rightarrow> db" where
  "set_application_rejected reason applicationId d =
     d\<lparr>loan_applications :=
          map (\<lambda>a. if la_id a = applicationId
                    then a\<lparr>la_status := ''rejected'', la_rejected_at := Some (clock d),
                           la_rejection_reason := reason\<rparr>
                    else a)
            (loan_applications d)\<rparr>"

definition cancel_pending_approvals :: "nat \<Rightarrow> db \<Rightarrow> db" where
  "cancel_pending_approvals applicationId d =
     d\<lparr>loan_approvals :=
          map (\<lambda>r. if ap_loan_application_id r = applicationId \<and> ap_status r = ''pending''
                    then r\<lparr>ap_status := ''cancelled''\<rparr> else r)
            (loan_approvals d)\<rparr>"

text \<open>
  The branch on the decision: the new application status, \<open>pendingCount\<close> (\<open>null\<close>
  unless the decision is \<open>approved\<close>) and the database after the branch.
\<close>

definition apply_decision ::
  "nat \<Rightarrow> loan_application \<Rightarrow> approvalData \<Rightarrow> db \<Rightarrow> string \<times> nat option \<times> db" where
  "apply_decision applicationId application approvalData d =
     (if decision approvalData = ''approved'' then
        (let pendingCount = count_pending_required applicationId d
         in if pendingCount = 0
            then (''approved'', Some pendingCount,
                  createLoanAccount application (set_application_approved applicationId d))
            else (''pending_approval'', Some pendingCount,
                  set_application_pending_approval applicationId d))
      else if decision approvalData = ''rejected'' then
        (''rejected'', None,
         cancel_pending_approvals applicationId
           (set_application_rejected (rejection_reason approvalData) applicationId d))
      else (la_status application, None, d))"

definition processApproval_callback ::
  "nat \<Rightarrow> int \<Rightarrow> approvalData \<Rightarrow> nat \<Rightarrow> db \<Rightarrow> (error + approval_result) \<times> db" where
  "processApproval_callback applicationId approvalLevel approvalData approvedBy d =
     (case select_loan_application applicationId d of
        [] \<Rightarrow> (Inl LoanApplicationNotFound, d)
      | application # _ \<Rightarrow>
          if la_status application \<notin> set [''submitted'', ''under_review'', ''pending_approval'']
          then (Inl NotReviewable, d)
          else
            (case select_pending_approval applicationId approvalLevel d of
               [] \<Rightarrow> (Inl NoPendingApproval, d)
             | pending # _ \<Rightarrow>
                 (case validateApprovalAuthority approvedBy (ap_required_role pending)
                         (la_requested_amount application) d of
                    Inl e \<Rightarrow> (Inl e, d)
                  | Inr _ \<Rightarrow>
                      (let (updatedApproval, d1) =
                             update_approval_decision (decision approvalData) approvedBy
                               (or_null (comments approvalData))
                               (or_null (rejection_reason approvalData)) (ap_id pending) d;
                           (applicationStatus, pendingCount, d2) =
                             apply_decision applicationId application approvalData d1;
                           d3 = logApprovalActivity applicationId (Some approvedBy)
                                  (decision approvalData)
                                  (ApprovalDetails approvalLevel (comments approvalData)
                                     (rejection_reason approvalData) applicationStatus) d2
                       in (Inr \<lparr>approval = (case updatedApproval of [] \<Rightarrow> None | r # _ \<Rightarrow> Some r),
                                 application_status = applicationStatus,
                                 workflow_complete =
                                   (pendingCount = Some 0 \<and> decision approvalData = ''approved''),
                                 next_steps = getNextSteps applicationStatus\<rparr>, d3)))))"

definition processApproval ::
  "nat \<Rightarrow> int \<Rightarrow> approvalData \<Rightarrow> nat \<Rightarrow> db \<Rightarrow> (error + approval_result) \<times> db" where
  "processApproval applicationId approvalLevel approvalData approvedBy =
     transaction (processApproval_callback applicationId approvalLevel approvalData approvedBy)"







text \<open>\<open>bulkApprove\<close>: the loop over the items carries \<open>results\<close> and the database.\<close>

record bulk_item =
  bi_application_id :: nat
  bi_approval_level :: int
  bi_decision :: string
  bi_comments :: "string option"
  bi_rejection_reason :: "string option"

record bulk_summary =
  total :: nat
  approved :: nat
  rejected :: nat
  failed_count :: nat

record bulk_results =
  successful :: "(nat \<times> approval_result) list"
  failed :: "(nat \<times> string) list"
  summary :: bulk_summary

fun bulkApprove_loop :: "bulk_item list \<Rightarrow> nat \<Rightarrow> bulk_results \<Rightarrow> db \<Rightarrow> bulk_results \<times> db" where
  "bulkApprove_loop [] approvedBy results d = (results, d)"
| "bulkApprove_loop (appData # rest) approvedBy results d =
     (case processApproval (bi_application_id appData) (bi_approval_level appData)
             \<lparr>decision = bi_decision appData, comments = bi_comments appData,
              rejection_reason = bi_rejection_reason appData\<rparr> approvedBy d of
        (Inr result, d') \<Rightarrow>
          bulkApprove_loop rest approvedBy
            (results\<lparr>successful := successful results @ [(bi_application_id appData, result)],
                     summary :=
                       (if bi_decision appData = ''approved''
                        then (summary results)\<lparr>approved := Suc (approved (summary results))\<rparr>
                        else (summary results)\<lparr>rejected := Suc (rejected (summary results))\<rparr>)\<rparr>)
            d'
      | (Inl e, d') \<Rightarrow>
          bulkApprove_loop rest approvedBy
            (results\<lparr>failed := failed results @ [(bi_application_id appData, message e)],
                     summary :=
                       (summary results)\<lparr>failed_count := Suc (failed_count (summary results))\<rparr>\<rparr>)
            d')"

definition bulkApprove :: "bulk_item list \<Rightarrow> nat \<Rightarrow> db \<Rightarrow> bulk_results \<times> db" where
  "bulkApprove applications approvedBy d =
     bulkApprove_loop applications approvedBy
       \<lparr>successful = [], failed = [],
        summary = \<lparr>total = length applications, approved = 0, rejected = 0, failed_count = 0\<rparr>\<rparr>
       d"

section \<open>Schedule calculator\<close>






section \<open>Risk scorer\<close>

text \<open>
  \<open>RiskAssessmentService\<close>. Optional arguments are \<open>None\<close> for \<open>null\<close> or
  \<open>undefined\<close>; amounts are numbers, as the documentation of the functions declares,
  and a decimal column is read as the number nearest to it.
\<close>

record credit_history =
  successful_loans :: jsnum
  defaulted_loans :: jsnum
  ch_late_payments :: jsnum

record payment_history =
  total_payments :: jsnum
  on_time_payments :: jsnum
  ph_late_payments :: jsnum

record financial_history =
  fh_credit_history :: "credit_history option"
  fh_payment_history :: "payment_history option"

definition riskFactors :: "(rat \<Rightarrow> rat) \<Rightarrow> (string \<times> rat) list" where
  "riskFactors rnd =
     [(''credit_score'', rnd (25 / 100)), (''payment_history'', rnd (20 / 100)),
      (''existing_loans'', rnd (15 / 100)), (''income_stability'', rnd (15 / 100)),
      (''debt_to_income_ratio'', rnd (10 / 100)), (''employment_history'', rnd (5 / 100)),
      (''collateral_value'', rnd (5 / 100)), (''guarantor_strength'', rnd (3 / 100)),
      (''kyc_completeness'', rnd (2 / 100))]"

definition assessCreditScore :: "(rat \<Rightarrow> rat) \<Rightarrow> credit_history option \<Rightarrow> jsnum" where
  "assessCreditScore rnd creditHistory =
     (case creditHistory of
        None \<Rightarrow> Fin 50
      | Some h \<Rightarrow>
          (let score = Fin 50;
               score1 = (if js_gt (successful_loans h) (Fin 0)
                         then js_add rnd score (js_min (js_mul rnd (successful_loans h) (Fin 10)) (Fin 30))
                         else score);
               score2 = (if js_gt (defaulted_loans h) (Fin 0)
                         then js_sub rnd score1 (js_mul rnd (defaulted_loans h) (Fin 20))
                         else score1);
               score3 = (if js_gt (ch_late_payments h) (Fin 0)
                         then js_sub rnd score2 (js_min (js_mul rnd (ch_late_payments h) (Fin 5)) (Fin 25))
                         else score2)
           in js_max (Fin 0) (js_min (Fin 100) score3)))"

definition assessPaymentHistory :: "(rat \<Rightarrow> rat) \<Rightarrow> payment_history option \<Rightarrow> jsnum" where
  "assessPaymentHistory rnd paymentHistory =
     (case paymentHistory of
        None \<Rightarrow> Fin 60
      | Some h \<Rightarrow>
          (let score =
                 (if js_gt (total_payments h) (Fin 0)
                  then (let onTimeRate =
                              js_mul rnd (js_div rnd (on_time_payments h) (total_payments h)) (Fin 100)
                        in js_min (Fin 100) (js_add rnd (Fin 20) (js_mul rnd onTimeRate (js_number rnd (8 / 10)))))
                  else Fin 60)
           in js_max (Fin 0) (js_min (Fin 100) score)))"

definition assessExistingLoans :: "(rat \<Rightarrow> rat) \<Rightarrow> jsnum option \<Rightarrow> jsnum \<Rightarrow> jsnum" where
  "assessExistingLoans rnd existingDebts monthlyIncome =
     (case existingDebts of
        None \<Rightarrow> Fin 100
      | Some debts \<Rightarrow>
          if \<not> js_truthy debts \<or> debts = Fin 0 then Fin 100
          else
            (let debtRatio = js_mul rnd (js_div rnd debts monthlyIncome) (Fin 100)
             in if js_le debtRatio (Fin 20) then Fin 100
                else if js_le debtRatio (Fin 40) then Fin 80
                else if js_le debtRatio (Fin 60) then Fin 60
                else if js_le debtRatio (Fin 80) then Fin 40
                else Fin 20))"

definition assessIncomeStability :: "(rat \<Rightarrow> rat) \<Rightarrow> string \<Rightarrow> jsnum \<Rightarrow> jsnum" where
  "assessIncomeStability rnd employmentStatus monthlyIncome =
     (let score =
            (if employmentStatus = ''employed'' then Fin 85
             else if employmentStatus = ''self_employed'' then Fin 70
             else if employmentStatus = ''retired'' then Fin 60
             else if employmentStatus = ''unemployed'' then Fin 20
             else if employmentStatus = ''student'' then Fin 30
             else Fin 40);
          score1 =
            (if js_ge monthlyIncome (Fin 100000) then js_add rnd score (Fin 10)
             else if js_ge monthlyIncome (Fin 50000) then js_add rnd score (Fin 5)
             else if js_lt monthlyIncome (Fin 20000) then js_sub rnd score (Fin 10)
             else score)
      in js_max (Fin 0) (js_min (Fin 100) score1))"

definition assessDebtToIncomeRatio :: "(rat \<Rightarrow> rat) \<Rightarrow> jsnum option \<Rightarrow> jsnum \<Rightarrow> jsnum" where
  "assessDebtToIncomeRatio rnd existingDebts monthlyIncome =
     (let debts = (case existingDebts of
                     None \<Rightarrow> Fin 0
                   | Some v \<Rightarrow> if js_truthy v then v else Fin 0);
          dtiRatio = js_mul rnd (js_div rnd debts monthlyIncome) (Fin 100)
      in if js_le dtiRatio (Fin 15) then Fin 100
         else if js_le dtiRatio (Fin 25) then Fin 90
         else if js_le dtiRatio (Fin 35) then Fin 75
         else if js_le dtiRatio (Fin 45) then Fin 60
         else if js_le dtiRatio (Fin 55) then Fin 40
         else Fin 20)"

definition assessEmploymentHistory :: "string \<Rightarrow> jsnum" where
  "assessEmploymentHistory employmentStatus =
     (if employmentStatus = ''employed'' then Fin 90
      else if employmentStatus = ''self_employed'' then Fin 75
      else if employmentStatus = ''retired'' then Fin 70
      else if employmentStatus = ''unemployed'' then Fin 10
      else if employmentStatus = ''student'' then Fin 40
      else Fin 50)"

definition assessCollateralValue ::
  "(rat \<Rightarrow> rat) \<Rightarrow> string option \<Rightarrow> jsnum option \<Rightarrow> jsnum \<Rightarrow> jsnum" where
  "assessCollateralValue rnd collateralType collateralValue loanAmount =
     (case collateralType of
        None \<Rightarrow> Fin 20
      | Some ty \<Rightarrow>
          if ty = [] \<or> ty = ''none'' then Fin 20
          else
            (case collateralValue of
               None \<Rightarrow> Fin 30
             | Some v \<Rightarrow>
                 if \<not> js_truthy v \<or> v = Fin 0 then Fin 30
                 else
                   (let collateralRatio = js_mul rnd (js_div rnd v loanAmount) (Fin 100);
                        typeMultiplier =
                          (if ty = ''property'' then js_number rnd (12 / 10)
                           else if ty = ''fixed_deposit'' then js_number rnd (11 / 10)
                           else if ty = ''gold'' then Fin 1
                           else if ty = ''vehicle'' then js_number rnd (9 / 10)
                           else if ty = ''business_assets'' then js_number rnd (8 / 10)
                           else if ty = ''guarantee'' then js_number rnd (7 / 10)
                           else js_number rnd (6 / 10));
                        score =
                          (if js_ge collateralRatio (Fin 150) then Fin 100
                           else if js_ge collateralRatio (Fin 120) then Fin 90
                           else if js_ge collateralRatio (Fin 100) then Fin 80
                           else if js_ge collateralRatio (Fin 80) then Fin 70
                           else if js_ge collateralRatio (Fin 60) then Fin 60
                           else Fin 40)
                    in js_min (Fin 100) (js_mul rnd score typeMultiplier))))"

definition assessGuarantorStrength :: "string option \<Rightarrow> string option \<Rightarrow> jsnum" where
  "assessGuarantorStrength guarantorName guarantorPhone =
     (if or_null guarantorName = None \<or> or_null guarantorPhone = None then Fin 40 else Fin 70)"

definition assessKYCCompleteness :: "string \<Rightarrow> nat option \<Rightarrow> jsnum" where
  "assessKYCCompleteness kycStatus kycApprovedAt =
     (if kycStatus = ''approved'' then Fin 100
      else if kycStatus = ''pending'' then Fin 50
      else if kycStatus = ''rejected'' then Fin 0
      else Fin 20)"

text \<open>
  \<open>calculateOverallRiskScore\<close>: the loop over \<open>Object.entries(riskFactorScores)\<close> carries
  \<open>totalScore\<close> and \<open>totalWeight\<close>. A key inherited from \<open>Object.prototype\<close> passes
  the test and has the weight \<open>undefined\<close>.
\<close>

definition weigh_factor ::
  "(rat \<Rightarrow> rat) \<Rightarrow> jsnum \<times> jsnum \<Rightarrow> string \<times> jsnum \<Rightarrow> jsnum \<times> jsnum" where
  "weigh_factor rnd acc entry =
     (case js_get (riskFactors rnd) (fst entry) of
        Own weight \<Rightarrow>
          (js_add rnd (fst acc) (js_mul rnd (snd entry) (Fin weight)), js_add rnd (snd acc) (Fin weight))
      | Inherited \<Rightarrow> (js_add rnd (fst acc) (js_mul rnd (snd entry) NaN), js_add rnd (snd acc) NaN)
      | Undefined \<Rightarrow> acc)"

definition calculateOverallRiskScore :: "(rat \<Rightarrow> rat) \<Rightarrow> (string \<times> jsnum) list \<Rightarrow> jsnum" where
  "calculateOverallRiskScore rnd riskFactorScores =
     (let (totalScore, totalWeight) = foldl (weigh_factor rnd) (Fin 0, Fin 0) riskFactorScores
      in if js_gt totalWeight (Fin 0) then js_round (js_div rnd totalScore totalWeight) else Fin 50)"

definition determineRiskLevel :: "jsnum \<Rightarrow> string" where
  "determineRiskLevel score =
     (if js_ge score (Fin 90) then ''very_low''
      else if js_ge score (Fin 75) then ''low''
      else if js_ge score (Fin 60) then ''medium''
      else if js_ge score (Fin 40) then ''high''
      else ''very_high'')"

text \<open>The row of the join of an application with its customer and its product.\<close>

record assessed_application =
  aa_application :: loan_application
  aa_kyc_status :: string
  aa_kyc_approved_at :: "nat option"
  aa_product_name :: string

definition select_application_for_assessment :: "nat \<Rightarrow> db \<Rightarrow> assessed_application list" where
  "select_application_for_assessment applicationId d =
     concat (map (\<lambda>a.
       concat (map (\<lambda>c.
         map (\<lambda>p. \<lparr>aa_application = a, aa_kyc_status = c_kyc_status c,
                     aa_kyc_approved_at = c_kyc_approved_at c, aa_product_name = lp_name p\<rparr>)
           (filter (\<lambda>p. lp_id p = la_loan_product_id a) (loan_products d)))
         (filter (\<lambda>c. c_id c = la_customer_id a) (customers d))))
       (filter (\<lambda>a. la_id a = applicationId) (loan_applications d)))"

definition getCustomerFinancialHistory :: "nat \<Rightarrow> financial_history" where
  "getCustomerFinancialHistory customerId =
     \<lparr>fh_credit_history =
        Some \<lparr>successful_loans = Fin 0, defaulted_loans = Fin 0, ch_late_payments = Fin 0\<rparr>,
      fh_payment_history =
        Some \<lparr>total_payments = Fin 0, on_time_payments = Fin 0, ph_late_payments = Fin 0\<rparr>\<rparr>"

definition calculateRiskFactorScores ::
  "(rat \<Rightarrow> rat) \<Rightarrow> assessed_application \<Rightarrow> financial_history \<Rightarrow> (string \<times> jsnum) list" where
  "calculateRiskFactorScores rnd application financialHistory =
     (let a = aa_application application
      in [(''credit_score'', assessCreditScore rnd (fh_credit_history financialHistory)),
          (''payment_history'', assessPaymentHistory rnd (fh_payment_history financialHistory)),
          (''existing_loans'',
             assessExistingLoans rnd (map_option (js_number rnd) (la_existing_debts a))
               (js_number rnd (la_monthly_income a))),
          (''income_stability'',
             assessIncomeStability rnd (la_employment_status a) (js_number rnd (la_monthly_income a))),
          (''debt_to_income_ratio'',
             assessDebtToIncomeRatio rnd (map_option (js_number rnd) (la_existing_debts a))
               (js_number rnd (la_monthly_income a))),
          (''employment_history'', assessEmploymentHistory (la_employment_status a)),
          (''collateral_value'',
             assessCollateralValue rnd (la_collateral_type a)
               (map_option (js_number rnd) (la_collateral_value a))
               (js_number rnd (la_requested_amount a))),
          (''guarantor_strength'',
             assessGuarantorStrength (la_guarantor_name a) (la_guarantor_phone a)),
          (''kyc_completeness'',
             assessKYCCompleteness (aa_kyc_status application) (aa_kyc_approved_at application))])"

text \<open>\<open>(scores && scores.factor || 0)\<close>\<close>

definition factor_or_zero :: "(string \<times> jsnum) list \<Rightarrow> string \<Rightarrow> jsnum" where
  "factor_or_zero scores k =
     (case js_get scores k of
        Own v \<Rightarrow> if js_truthy v then v else Fin 0
      | Inherited \<Rightarrow> NaN
      | Undefined \<Rightarrow> Fin 0)"

definition generateRecommendations ::
  "string \<Rightarrow> (string \<times> jsnum) list \<Rightarrow> assessed_application \<Rightarrow> recommendation list" where
  "generateRecommendations riskLevel riskFactorScores application =
     (if riskLevel = ''very_low'' then
        [\<lparr>rec_type = ''approval'', rec_priority = ''high'',
          rec_message = ''Recommend approval with standard terms'',
          rec_action = ''Proceed with loan approval process''\<rparr>]
      else if riskLevel = ''low'' then
        [\<lparr>rec_type = ''approval'', rec_priority = ''medium'',
          rec_message = ''Recommend approval with standard terms'',
          rec_action = ''Minor documentation review recommended''\<rparr>]
      else if riskLevel = ''medium'' then
        [\<lparr>rec_type = ''conditional'', rec_priority = ''medium'',
          rec_message = ''Conditional approval - consider additional security'',
          rec_action = ''Require additional collateral or guarantor''\<rparr>]
      else if riskLevel = ''high'' then
        [\<lparr>rec_type = ''review'', rec_priority = ''high'',
          rec_message = ''Requires senior management review'',
          rec_action = ''Detailed financial assessment needed''\<rparr>]
      else if riskLevel = ''very_high'' then
        [\<lparr>rec_type = ''rejection'', rec_priority = ''high'',
          rec_message = ''Recommend rejection or significant risk mitigation'',
          rec_action = ''Consider alternative loan products or declined''\<rparr>]
      else [])
     @ (if js_lt (factor_or_zero riskFactorScores ''debt_to_income_ratio'') (Fin 60) then
          [\<lparr>rec_type = ''concern'', rec_priority = ''medium'',
            rec_message = ''High debt-to-income ratio detected'',
            rec_action = ''Verify all income sources and existing debts''\<rparr>]
        else [])
     @ (if js_lt (factor_or_zero riskFactorScores ''collateral_value'') (Fin 50) then
          [\<lparr>rec_type = ''requirement'', rec_priority = ''medium'',
            rec_message = ''Insufficient collateral coverage'',
            rec_action = ''Require additional collateral or reduce loan amount''\<rparr>]
        else [])
     @ (if js_lt (factor_or_zero riskFactorScores ''income_stability'') (Fin 60) then
          [\<lparr>rec_type = ''verification'', rec_priority = ''high'',
            rec_message = ''Income stability concerns'',
            rec_action = ''Verify employment and income documentation''\<rparr>]
        else [])"

definition calculateFraudScore :: "(rat \<Rightarrow> rat) \<Rightarrow> assessed_application \<Rightarrow> jsnum" where
  "calculateFraudScore rnd application =
     (let a = aa_application application;
          amount = (if js_truthy (js_number rnd (la_requested_amount a))
                    then js_number rnd (la_requested_amount a) else Fin 0);
          fraudScore = Fin 0;
          fraudScore1 = (if js_gt (js_number rnd (la_monthly_income a)) (js_mul rnd amount (Fin 2))
                         then js_add rnd fraudScore (Fin 10) else fraudScore);
          fraudScore2 = (if js_gt amount (Fin 1000000) \<and> la_employment_status a = ''unemployed''
                         then js_add rnd fraudScore1 (Fin 30) else fraudScore1)
      in js_min (Fin 100) fraudScore2)"

text \<open>
  The two placeholder scores call \<open>Math.random()\<close>; the value it returns is the
  argument \<open>random\<close>.
\<close>

definition calculateBehavioralScore :: "(rat \<Rightarrow> rat) \<Rightarrow> jsnum \<Rightarrow> jsnum" where
  "calculateBehavioralScore rnd random = js_add rnd (js_floor (js_mul rnd random (Fin 40))) (Fin 60)"

definition calculateMarketRiskScore :: "(rat \<Rightarrow> rat) \<Rightarrow> jsnum \<Rightarrow> jsnum" where
  "calculateMarketRiskScore rnd random = js_add rnd (js_floor (js_mul rnd random (Fin 30))) (Fin 50)"

definition generateAIInsights ::
  "(rat \<Rightarrow> rat) \<Rightarrow> assessed_application \<Rightarrow> (string \<times> jsnum) list \<Rightarrow> jsnum \<Rightarrow> jsnum
     \<Rightarrow> ai_insights" where
  "generateAIInsights rnd application riskFactorScores random1 random2 =
     \<lparr>fraud_score = calculateFraudScore rnd application,
      behavioral_score = calculateBehavioralScore rnd random1,
      market_risk_score = calculateMarketRiskScore rnd random2,
      ai_recommendations =
        [''Consider seasonal income variations for self-employed applicants'',
         ''Monitor for early payment indicators'',
         ''Assess local economic conditions impact'']\<rparr>"

text \<open>\<open>INSERT INTO loan_risk_assessments (...) RETURNING *\<close>\<close>

definition saveRiskAssessment ::
  "nat \<Rightarrow> nat \<Rightarrow> jsnum \<Rightarrow> string \<Rightarrow> (string \<times> jsnum) list \<Rightarrow> recommendation list \<Rightarrow> ai_insights
     \<Rightarrow> nat \<Rightarrow> db \<Rightarrow> risk_assessment \<times> db" where
  "saveRiskAssessment applicationId customerId overallScore riskLevel riskFactorScores recs insights
       assessedBy d =
     (let row = \<lparr>ra_id = loan_risk_assessments_id_seq d,
                  ra_loan_application_id = applicationId,
                  ra_customer_id = customerId,
                  ra_overall_score = overallScore,
                  ra_risk_level = riskLevel,
                  ra_risk_factors = riskFactorScores,
                  ra_recommendations = recs,
                  ra_ai_insights = insights,
                  ra_assessed_by = assessedBy,
                  ra_created_at = clock d\<rparr>
      in (row, d\<lparr>loan_risk_assessments := loan_risk_assessments d @ [row],
                 loan_risk_assessments_id_seq := Suc (loan_risk_assessments_id_seq d)\<rparr>))"

definition logRiskAssessmentActivity ::
  "nat \<Rightarrow> nat \<Rightarrow> string \<Rightarrow> audit_details \<Rightarrow> db \<Rightarrow> db" where
  "logRiskAssessmentActivity applicationId userId action details d =
     d\<lparr>audit_logs := audit_logs d @
          [\<lparr>al_user_id = Some userId, al_action = action,
            al_resource = ''loan_risk_assessment'', al_resource_id = applicationId,
            al_details = details\<rparr>]\<rparr>"

definition performRiskAssessment_callback ::
  "(rat \<Rightarrow> rat) \<Rightarrow> nat \<Rightarrow> nat \<Rightarrow> jsnum \<Rightarrow> jsnum \<Rightarrow> db \<Rightarrow> (error + risk_assessment) \<times> db" where
  "performRiskAssessment_callback rnd applicationId assessedBy random1 random2 d =
     (case select_application_for_assessment applicationId d of
        [] \<Rightarrow> (Inl LoanApplicationNotFound, d)
      | application # _ \<Rightarrow>
          (let customerId = la_customer_id (aa_application application);
               financialHistory = getCustomerFinancialHistory customerId;
               riskFactorScores = calculateRiskFactorScores rnd application financialHistory;
               overallScore = calculateOverallRiskScore rnd riskFactorScores;
               riskLevel = determineRiskLevel overallScore;
               recs = generateRecommendations riskLevel riskFactorScores application;
               insights = generateAIInsights rnd application riskFactorScores random1 random2;
               (savedAssessment, d1) =
                 saveRiskAssessment applicationId customerId overallScore riskLevel
                   riskFactorScores recs insights assessedBy d;
               d2 = logRiskAssessmentActivity applicationId assessedBy
                      ''risk_assessment_completed''
                      (RiskAssessmentDetails riskLevel overallScore (ra_id savedAssessment)) d1
           in (Inr savedAssessment, d2)))"

definition performRiskAssessment ::
  "(rat \<Rightarrow> rat) \<Rightarrow> nat \<Rightarrow> nat \<Rightarrow> jsnum \<Rightarrow> jsnum \<Rightarrow> db \<Rightarrow> (error + risk_assessment) \<times> db" where
  "performRiskAssessment rnd applicationId assessedBy random1 random2 =
     transaction (performRiskAssessment_callback rnd applicationId assessedBy random1 random2)"

section \<open>Per-item outcomes of a batch\<close>

text \<open>
  The description of \<open>bulkApprove\<close> in words: \<open>processApproval\<close> is applied to each
  item in turn, each in its own transaction, and the successes and failures are
  collected separately. \<open>item_outcomes\<close> lists what each item returned or threw, and
  \<open>run_items\<close> is the database after all of them; they are compared with the loop of the
  source below.
\<close>

abbreviation run_item :: "bulk_item \<Rightarrow> nat \<Rightarrow> db \<Rightarrow> (error + approval_result) \<times> db" where
  "run_item appData approvedBy d \<equiv>
     processApproval (bi_application_id appData) (bi_approval_level appData)
       \<lparr>decision = bi_decision appData, comments = bi_comments appData,
        rejection_reason = bi_rejection_reason appData\<rparr> approvedBy d"

fun item_outcomes :: "bulk_item list \<Rightarrow> nat \<Rightarrow> db \<Rightarrow> (bulk_item \<times> (error + approval_result)) list" where
  "item_outcomes [] approvedBy d = []"
| "item_outcomes (appData # rest) approvedBy d =
     (appData, fst (run_item appData approvedBy d))
     # item_outcomes rest approvedBy (snd (run_item appData approvedBy d))"

fun run_items :: "bulk_item list \<Rightarrow> nat \<Rightarrow> db \<Rightarrow> db" where
  "run_items [] approvedBy d = d"
| "run_items (appData # rest) approvedBy d =
     run_items rest approvedBy (snd (run_item appData approvedBy d))"

definition successes_of :: "(bulk_item \<times> (error + approval_result)) list \<Rightarrow> (nat \<times> approval_result) list" where
  "successes_of outs =
     concat (map (\<lambda>(appData, r). case r of Inr result \<Rightarrow> [(bi_application_id appData, result)]
                                   | Inl _ \<Rightarrow> []) outs)"

definition failures_of :: "(bulk_item \<times> (error + approval_result)) list \<Rightarrow> (nat \<times> string) list" where
  "failures_of outs =
     concat (map (\<lambda>(appData, r). case r of Inl e \<Rightarrow> [(bi_application_id appData, message e)]
                                   | Inr _ \<Rightarrow> []) outs)"

definition count_succeeded :: "(bulk_item \<Rightarrow> bool) \<Rightarrow> (bulk_item \<times> (error + approval_result)) list \<Rightarrow> nat" where
  "count_succeeded P outs = length (filter (\<lambda>(appData, r). \<not> isl r \<and> P appData) outs)"

section \<open>Exact amortization\<close>



section \<open>Example data\<close>

text \<open>
  A database with a two-level application (amount 200000) and an application above
  5,000,000 with four levels, used to run the operations on concrete inputs.
\<close>

definition example_application :: "nat \<Rightarrow> rat \<Rightarrow> string \<Rightarrow> loan_application" where
  "example_application i amount st =
     \<lparr>la_id = i, la_application_id = ''LA0000000'' @ [char_of (48 + i)], la_customer_id = 1,
      la_loan_product_id = 1, la_requested_amount = amount, la_employment_status = ''employed'',
      la_monthly_income = 60000, la_existing_debts = Some 10000,
      la_collateral_type = Some ''property'', la_collateral_value = Some 80000,
      la_guarantor_name = Some ''G'', la_guarantor_phone = Some ''123'',
      la_status = st, la_approved_at = None, la_rejected_at = None,
      la_rejection_reason = None\<rparr>"

definition example_approval :: "nat \<Rightarrow> nat \<Rightarrow> int \<Rightarrow> string \<Rightarrow> loan_approval" where
  "example_approval i applicationId lvl r =
     \<lparr>ap_id = i, ap_loan_application_id = applicationId, ap_approval_level = lvl,
      ap_required_role = r, ap_approved_by = None, ap_approved_at = None,
      ap_status = ''pending'', ap_comments = None, ap_rejection_reason = None,
      ap_is_required = True, ap_created_at = 0\<rparr>"

definition example_db :: db where
  "example_db =
     \<lparr>loan_applications =
        [example_application 1 200000 ''submitted'', example_application 2 10000000 ''submitted''],
      loan_approvals =
        [example_approval 1 1 1 ''loan_officer'', example_approval 2 1 2 ''branch_manager'',
         example_approval 3 2 1 ''loan_officer'', example_approval 4 2 2 ''branch_manager'',
         example_approval 5 2 3 ''finance_manager'', example_approval 6 2 4 ''ceo''],
      users =
        [\<lparr>u_id = 10, u_role = ''loan_officer''\<rparr>, \<lparr>u_id = 11, u_role = ''branch_manager''\<rparr>,
         \<lparr>u_id = 12, u_role = ''finance_manager''\<rparr>, \<lparr>u_id = 13, u_role = ''ceo''\<rparr>],
      customers = [\<lparr>c_id = 1, c_kyc_status = ''approved'', c_kyc_approved_at = Some 0\<rparr>],
      loan_products = [\<lparr>lp_id = 1, lp_name = ''Personal loan''\<rparr>],
      loan_risk_assessments = [],
      audit_logs = [],
      loan_approvals_id_seq = 7,
      loan_risk_assessments_id_seq = 1,
      clock = 100\<rparr>"

definition example_approve :: approvalData where
  "example_approve = \<lparr>decision = ''approved'', comments = None, rejection_reason = None\<rparr>"

definition example_reject :: approvalData where
  "example_reject =
     \<lparr>decision = ''rejected'', comments = None, rejection_reason = Some ''income not verified''\<rparr>"

definition example_valid_item :: bulk_item where
  "example_valid_item =
     \<lparr>bi_application_id = 1, bi_approval_level = 1, bi_decision = ''approved'',
      bi_comments = None, bi_rejection_reason = None\<rparr>"

definition example_missing_item :: bulk_item where
  "example_missing_item =
     \<lparr>bi_application_id = 99, bi_approval_level = 1, bi_decision = ''approved'',
      bi_comments = None, bi_rejection_reason = None\<rparr>"



section \<open>Properties of the approval chain\<close>

lemma createApprovalWorkflow_rows:
  "loan_approvals (createApprovalWorkflow applicationId amount d) =
     loan_approvals d @
       map (\<lambda>(k, l). \<lparr>ap_id = loan_approvals_id_seq d + k,
                  ap_loan_application_id = applicationId,
                  ap_approval_level = level l,
                  ap_required_role = role l,
                  ap_approved_by = None,
                  ap_approved_at = None,
                  ap_status = ''pending'',
                  ap_comments = None,
                  ap_rejection_reason = None,
                  ap_is_required = required l,
                  ap_created_at = clock d\<rparr>) (enumerate 0 (approvalLevels amount))"
  by (simp add: createApprovalWorkflow_def approvalLevels_def insert_loan_approval_def Let_def)

text \<open>
  C1. The chain created at submission should hold the levels of the table of the chain
  builder, four levels ending with \<open>ceo\<close> above 5,000,000. For the amount 5000001
  \<open>createApprovalWorkflow\<close> inserts three rows only, the last for \<open>finance_manager\<close>,
  while \<open>getRequiredRoleForLevel\<close> names \<open>ceo\<close> at level 4 for the same amount.
\<close>

theorem createApprovalWorkflow_above_5000000:
  "map (\<lambda>r. (ap_approval_level r, ap_required_role r))
     (drop (length (loan_approvals d))
        (loan_approvals (createApprovalWorkflow applicationId 5000001 d)))
   = [(1, ''loan_officer''), (2, ''branch_manager''), (3, ''finance_manager'')]
   \<and> getRequiredRoleForLevel 4 5000001 = Some ''ceo''"
  by (simp add: createApprovalWorkflow_def approvalLevels_def insert_loan_approval_def Let_def
      getRequiredRoleForLevel_def)

section \<open>Properties of the approval workflow engine\<close>

lemma transaction_Inl: "fst (callback d) = Inl e \<Longrightarrow> transaction callback d = (Inl e, d)"
  by (cases "callback d") (simp add: transaction_def)

text \<open>
  C4. When the application is reviewable and has a pending record at the level, an actor
  whose role ranks below the required role of the record in \<open>roleHierarchy\<close>, or below
  \<open>ceo\<close> (rank 4) on a loan above 5,000,000, gets one of the two authority errors.
  The callback throws before it has issued any statement: the database it leaves is the
  one it started from, and so is the database after the rollback.
\<close>

theorem processApproval_insufficient_authority:
  assumes app: "select_loan_application applicationId d = application # apps"
    and reviewable: "la_status application \<in> set [''submitted'', ''under_review'', ''pending_approval'']"
    and pending: "select_pending_approval applicationId approvalLevel d = pending # ps"
    and actor: "filter (\<lambda>u. u_id u = approvedBy) (users d) = user # us"
    and rank: "map_of roleHierarchy (u_role user) = Some a"
    and lacks: "(\<exists>r. map_of roleHierarchy (ap_required_role pending) = Some r \<and> a < r)
                \<or> (la_requested_amount application > 5000000 \<and> a < 4)"
  shows "\<exists>e. e \<in> {InsufficientAuthorityForLevel, CeoApprovalRequired}
           \<and> processApproval_callback applicationId approvalLevel approvalData approvedBy d = (Inl e, d)
           \<and> processApproval applicationId approvalLevel approvalData approvedBy d = (Inl e, d)"
proof -
  have ul: "hierarchy_level (u_role user) 0 = Fin (of_nat a)" and a0: "a \<noteq> 0"
    using rank by (auto simp: hierarchy_level_def js_get_def roleHierarchy_def split: if_splits)
  have "\<exists>e. e \<in> {InsufficientAuthorityForLevel, CeoApprovalRequired}
          \<and> validateApprovalAuthority approvedBy (ap_required_role pending)
                (la_requested_amount application) d = Inl e"
    using lacks
  proof
    assume "\<exists>r. map_of roleHierarchy (ap_required_role pending) = Some r \<and> a < r"
    then obtain r where r: "map_of roleHierarchy (ap_required_role pending) = Some r" and lt: "a < r"
      by blast
    have "hierarchy_level (ap_required_role pending) 999 = Fin (of_nat r)"
      using r lt by (simp add: hierarchy_level_def js_get_def)
    then show ?thesis
      using ul lt actor by (simp add: validateApprovalAuthority_def Let_def)
  next
    assume big: "la_requested_amount application > 5000000 \<and> a < 4"
    have "u_role user \<noteq> ''ceo'' \<and> u_role user \<noteq> ''admin'' \<and> u_role user \<noteq> ''super_admin''"
      using rank big by (auto simp: roleHierarchy_def)
    then show ?thesis
      using big actor by (simp add: validateApprovalAuthority_def Let_def)
  qed
  then obtain e where e: "e \<in> {InsufficientAuthorityForLevel, CeoApprovalRequired}"
    and v: "validateApprovalAuthority approvedBy (ap_required_role pending)
              (la_requested_amount application) d = Inl e"
    by blast
  have cb: "processApproval_callback applicationId approvalLevel approvalData approvedBy d = (Inl e, d)"
    using app reviewable pending v by (simp add: processApproval_callback_def)
  then have "processApproval applicationId approvalLevel approvalData approvedBy d = (Inl e, d)"
    by (simp add: processApproval_def transaction_def)
  with e cb show ?thesis by blast
qed


theorem processApproval_insufficient_authority_witness:
  "(\<exists>e. e \<in> {InsufficientAuthorityForLevel, CeoApprovalRequired}
      \<and> processApproval_callback 2 3 example_approve 12 example_db = (Inl e, example_db)
      \<and> processApproval 2 3 example_approve 12 example_db = (Inl e, example_db))
   \<and> (\<exists>e. e \<in> {InsufficientAuthorityForLevel, CeoApprovalRequired}
      \<and> processApproval_callback 2 4 example_approve 10 example_db = (Inl e, example_db)
      \<and> processApproval 2 4 example_approve 10 example_db = (Inl e, example_db))"
proof -
  have app: "select_loan_application 2 example_db = example_application 2 10000000 ''submitted'' # []"
    by code_simp
  have rev: "la_status (example_application 2 10000000 ''submitted'')
               \<in> set [''submitted'', ''under_review'', ''pending_approval'']"
    by code_simp
  have big: "la_requested_amount (example_application 2 10000000 ''submitted'') > 5000000"
    by (simp add: example_application_def)
  have pen3: "select_pending_approval 2 3 example_db = example_approval 5 2 3 ''finance_manager'' # []"
    by code_simp
  have pen4: "select_pending_approval 2 4 example_db = example_approval 6 2 4 ''ceo'' # []"
    by code_simp
  have fm: "filter (\<lambda>u. u_id u = 12) (users example_db)
              = \<lparr>u_id = 12, u_role = ''finance_manager''\<rparr> # []"
    by code_simp
  have lo: "filter (\<lambda>u. u_id u = 10) (users example_db)
              = \<lparr>u_id = 10, u_role = ''loan_officer''\<rparr> # []"
    by code_simp
  have rank_fm: "map_of roleHierarchy (u_role \<lparr>u_id = 12, u_role = ''finance_manager''\<rparr>) = Some 3"
    by code_simp
  have rank_lo: "map_of roleHierarchy (u_role \<lparr>u_id = 10, u_role = ''loan_officer''\<rparr>) = Some 1"
    by code_simp
  have lacks_fm:
    "(\<exists>r. map_of roleHierarchy (ap_required_role (example_approval 5 2 3 ''finance_manager''))
            = Some r \<and> (3::nat) < r)
     \<or> (la_requested_amount (example_application 2 10000000 ''submitted'') > 5000000
         \<and> (3::nat) < 4)"
    using big by simp
  have "map_of roleHierarchy (ap_required_role (example_approval 6 2 4 ''ceo'')) = Some 4"
    by code_simp
  then have lacks_lo:
    "(\<exists>r. map_of roleHierarchy (ap_required_role (example_approval 6 2 4 ''ceo''))
            = Some r \<and> (1::nat) < r)
     \<or> (la_requested_amount (example_application 2 10000000 ''submitted'') > 5000000
         \<and> (1::nat) < 4)"
    by simp
  show ?thesis
    using processApproval_insufficient_authority
            [OF app rev pen3 fm rank_fm lacks_fm, of example_approve]
      processApproval_insufficient_authority
            [OF app rev pen4 lo rank_lo lacks_lo, of example_approve]
    by blast
qed

lemma processApproval_success:
  assumes "select_loan_application applicationId d = application # apps"
    and "la_status application \<in> set [''submitted'', ''under_review'', ''pending_approval'']"
    and "select_pending_approval applicationId approvalLevel d = pending # ps"
    and "validateApprovalAuthority approvedBy (ap_required_role pending)
           (la_requested_amount application) d = Inr u"
  shows "processApproval applicationId approvalLevel approvalData approvedBy d =
     (case update_approval_decision (decision approvalData) approvedBy
             (or_null (comments approvalData)) (or_null (rejection_reason approvalData))
             (ap_id pending) d of
        (updatedApproval, d1) \<Rightarrow>
          (case apply_decision applicationId application approvalData d1 of
             (applicationStatus, pendingCount, d2) \<Rightarrow>
               (Inr \<lparr>approval = (case updatedApproval of [] \<Rightarrow> None | r # _ \<Rightarrow> Some r),
                     application_status = applicationStatus,
                     workflow_complete =
                       (pendingCount = Some 0 \<and> decision approvalData = ''approved''),
                     next_steps = getNextSteps applicationStatus\<rparr>,
                logApprovalActivity applicationId (Some approvedBy) (decision approvalData)
                  (ApprovalDetails approvalLevel (comments approvalData)
                     (rejection_reason approvalData) applicationStatus) d2)))"
  using assms
  by (simp add: processApproval_def transaction_def processApproval_callback_def Let_def
      split: prod.splits)

lemma processApproval_Inr_elim:
  assumes "processApproval applicationId approvalLevel approvalData approvedBy d = (Inr result, d')"
  obtains application apps pending ps u where
    "select_loan_application applicationId d = application # apps"
    "la_status application \<in> set [''submitted'', ''under_review'', ''pending_approval'']"
    "select_pending_approval applicationId approvalLevel d = pending # ps"
    "validateApprovalAuthority approvedBy (ap_required_role pending)
       (la_requested_amount application) d = Inr u"
  using assms
  by (auto simp: processApproval_def transaction_def processApproval_callback_def Let_def
      split: list.splits if_splits sum.splits prod.splits)



lemma logApprovalActivity_frame:
  "loan_approvals (logApprovalActivity a u act det d) = loan_approvals d"
  "loan_applications (logApprovalActivity a u act det d) = loan_applications d"
  "users (logApprovalActivity a u act det d) = users d"
  "clock (logApprovalActivity a u act det d) = clock d"
  by (simp_all add: logApprovalActivity_def)

lemma createLoanAccount_frame:
  "loan_approvals (createLoanAccount application d) = loan_approvals d"
  "loan_applications (createLoanAccount application d) = loan_applications d"
  by (simp_all add: createLoanAccount_def logApprovalActivity_frame)

lemma update_approval_decision_frame:
  "loan_applications (snd (update_approval_decision st by cm rr rid d)) = loan_applications d"
  "clock (snd (update_approval_decision st by cm rr rid d)) = clock d"
  "users (snd (update_approval_decision st by cm rr rid d)) = users d"
  by (simp_all add: update_approval_decision_def Let_def)

lemma count_pending_required_cong:
  "loan_approvals d = loan_approvals d' \<Longrightarrow>
   count_pending_required applicationId d = count_pending_required applicationId d'"
  by (simp add: count_pending_required_def)

lemma select_loan_application_cong:
  "loan_applications d = loan_applications d' \<Longrightarrow>
   select_loan_application applicationId d = select_loan_application applicationId d'"
  by (simp add: select_loan_application_def)

lemma apply_decision_approved_complete:
  assumes "decision approvalData = ''approved''" "count_pending_required applicationId d = 0"
  shows "apply_decision applicationId application approvalData d =
           (''approved'', Some 0,
            createLoanAccount application (set_application_approved applicationId d))"
  using assms by (simp add: apply_decision_def Let_def)

lemma apply_decision_approved_pending:
  assumes "decision approvalData = ''approved''" "count_pending_required applicationId d \<noteq> 0"
  shows "apply_decision applicationId application approvalData d =
           (''pending_approval'', Some (count_pending_required applicationId d),
            set_application_pending_approval applicationId d)"
  using assms by (simp add: apply_decision_def Let_def)

lemma apply_decision_rejected:
  assumes "decision approvalData = ''rejected''"
  shows "apply_decision applicationId application approvalData d =
           (''rejected'', None,
            cancel_pending_approvals applicationId
              (set_application_rejected (rejection_reason approvalData) applicationId d))"
  using assms by (simp add: apply_decision_def)



lemma filter_map_same_id:
  assumes "\<And>a. la_id (f a) = la_id a"
  shows "filter (\<lambda>a. la_id a = i) (map (\<lambda>a. if la_id a = i then f a else a) xs)
         = map f (filter (\<lambda>a. la_id a = i) xs)"
  using assms by (induction xs) auto

lemma select_set_application_approved:
  "select_loan_application i (set_application_approved i d) =
     map (\<lambda>a. a\<lparr>la_status := ''approved'', la_approved_at := Some (clock d)\<rparr>)
       (select_loan_application i d)"
  by (simp add: select_loan_application_def set_application_approved_def filter_map_same_id)

lemma select_set_application_pending_approval:
  "select_loan_application i (set_application_pending_approval i d) =
     map (\<lambda>a. a\<lparr>la_status := ''pending_approval''\<rparr>) (select_loan_application i d)"
  by (simp add: select_loan_application_def set_application_pending_approval_def
      filter_map_same_id)

lemma select_set_application_rejected:
  "select_loan_application i (set_application_rejected reason i d) =
     map (\<lambda>a. a\<lparr>la_status := ''rejected'', la_rejected_at := Some (clock d),
                la_rejection_reason := reason\<rparr>)
       (select_loan_application i d)"
  by (simp add: select_loan_application_def set_application_rejected_def filter_map_same_id)

lemma set_application_frame:
  "loan_approvals (set_application_approved i d) = loan_approvals d"
  "loan_approvals (set_application_pending_approval i d) = loan_approvals d"
  "loan_approvals (set_application_rejected reason i d) = loan_approvals d"
  by (simp_all add: set_application_approved_def set_application_pending_approval_def
      set_application_rejected_def)

lemma cancel_pending_approvals_frame:
  "loan_applications (cancel_pending_approvals applicationId d) = loan_applications d"
  "length (loan_approvals (cancel_pending_approvals applicationId d)) = length (loan_approvals d)"
  by (simp_all add: cancel_pending_approvals_def)

lemma cancel_pending_approvals_none_pending:
  assumes "r \<in> set (loan_approvals (cancel_pending_approvals applicationId d))"
    and "ap_loan_application_id r = applicationId"
  shows "ap_status r \<noteq> ''pending''"
proof -
  from assms(1) obtain r0 where "r0 \<in> set (loan_approvals d)"
    and r: "r = (if ap_loan_application_id r0 = applicationId \<and> ap_status r0 = ''pending''
                 then r0\<lparr>ap_status := ''cancelled''\<rparr> else r0)"
    by (auto simp: cancel_pending_approvals_def)
  show ?thesis
  proof (cases "ap_loan_application_id r0 = applicationId \<and> ap_status r0 = ''pending''")
    case True
    then show ?thesis using r by simp
  next
    case False
    then show ?thesis using r assms(2) by auto
  qed
qed

lemma cancel_pending_approvals_nth:
  assumes "i < length (loan_approvals d)"
    and "ap_loan_application_id (loan_approvals d ! i) = applicationId"
    and "ap_status (loan_approvals d ! i) = ''pending''"
  shows "ap_status (loan_approvals (cancel_pending_approvals applicationId d) ! i) = ''cancelled''"
  using assms by (simp add: cancel_pending_approvals_def)

lemma update_approval_decision_rows:
  "length (loan_approvals (snd (update_approval_decision st by cm rr rid d)))
     = length (loan_approvals d)"
  "i < length (loan_approvals d) \<Longrightarrow> ap_id (loan_approvals d ! i) \<noteq> rid \<Longrightarrow>
     loan_approvals (snd (update_approval_decision st by cm rr rid d)) ! i = loan_approvals d ! i"
  "i < length (loan_approvals d) \<Longrightarrow> ap_id (loan_approvals d ! i) = rid \<Longrightarrow>
     ap_status (loan_approvals (snd (update_approval_decision st by cm rr rid d)) ! i) = st"
  by (simp_all add: update_approval_decision_def Let_def)


text \<open>
  C3. After a successful \<open>processApproval\<close>: on \<open>approved\<close>, if no pending required
  record of the application remains, the application is \<open>approved\<close> with its approval
  timestamp and the result reports the workflow complete, and otherwise the application
  is \<open>pending_approval\<close>; on \<open>rejected\<close>, the application is \<open>rejected\<close> with
  timestamp and reason, every other record of the application that was pending is
  \<open>cancelled\<close>, and no level of the application has a pending record left.
\<close>

theorem processApproval_decision_outcome:
  assumes ok: "processApproval applicationId approvalLevel approvalData approvedBy d = (Inr result, d')"
  shows "select_loan_application applicationId d' \<noteq> []
    \<and> (decision approvalData = ''approved'' \<and> count_pending_required applicationId d' = 0 \<longrightarrow>
         application_status result = ''approved'' \<and> workflow_complete result
         \<and> (\<forall>a \<in> set (select_loan_application applicationId d').
               la_status a = ''approved'' \<and> la_approved_at a = Some (clock d)))
    \<and> (decision approvalData = ''approved'' \<and> count_pending_required applicationId d' \<noteq> 0 \<longrightarrow>
         application_status result = ''pending_approval'' \<and> \<not> workflow_complete result
         \<and> (\<forall>a \<in> set (select_loan_application applicationId d').
               la_status a = ''pending_approval''))
    \<and> (decision approvalData = ''rejected'' \<longrightarrow>
         application_status result = ''rejected'' \<and> \<not> workflow_complete result
         \<and> (\<forall>a \<in> set (select_loan_application applicationId d').
               la_status a = ''rejected'' \<and> la_rejected_at a = Some (clock d)
               \<and> la_rejection_reason a = rejection_reason approvalData)
         \<and> length (loan_approvals d') = length (loan_approvals d)
         \<and> (\<forall>i < length (loan_approvals d).
               ap_loan_application_id (loan_approvals d ! i) = applicationId
               \<and> ap_status (loan_approvals d ! i) = ''pending''
               \<and> ap_id (loan_approvals d ! i)
                   \<noteq> ap_id (hd (select_pending_approval applicationId approvalLevel d))
               \<longrightarrow> ap_status (loan_approvals d' ! i) = ''cancelled'')
         \<and> (\<forall>r \<in> set (loan_approvals d').
               ap_loan_application_id r = applicationId \<longrightarrow> ap_status r \<noteq> ''pending'')
         \<and> (\<forall>lvl. select_pending_approval applicationId lvl d' = []))"
proof -
  from ok obtain application apps pending ps u where
    app: "select_loan_application applicationId d = application # apps"
    and rev: "la_status application \<in> set [''submitted'', ''under_review'', ''pending_approval'']"
    and pen: "select_pending_approval applicationId approvalLevel d = pending # ps"
    and auth: "validateApprovalAuthority approvedBy (ap_required_role pending)
       (la_requested_amount application) d = Inr u"
    by (rule processApproval_Inr_elim)
  define d1 where "d1 = snd (update_approval_decision (decision approvalData) approvedBy
             (or_null (comments approvalData)) (or_null (rejection_reason approvalData))
             (ap_id pending) d)"
  define outcome where "outcome = apply_decision applicationId application approvalData d1"
  have eq: "application_status result = fst outcome"
    "workflow_complete result = (fst (snd outcome) = Some 0 \<and> decision approvalData = ''approved'')"
    "d' = logApprovalActivity applicationId (Some approvedBy) (decision approvalData)
            (ApprovalDetails approvalLevel (comments approvalData)
               (rejection_reason approvalData) (fst outcome)) (snd (snd outcome))"
    using ok unfolding processApproval_success [OF app rev pen auth] d1_def outcome_def
    by (auto split: prod.splits)
  have sel1: "select_loan_application applicationId d1 = application # apps"
    using app by (simp add: d1_def select_loan_application_def update_approval_decision_frame)
  have clock1: "clock d1 = clock d"
    by (simp add: d1_def update_approval_decision_frame)
  have sel': "select_loan_application applicationId d'
                = select_loan_application applicationId (snd (snd outcome))"
    by (simp add: eq(3) select_loan_application_def logApprovalActivity_frame)
  have cnt': "count_pending_required applicationId d'
                = count_pending_required applicationId (snd (snd outcome))"
    by (simp add: eq(3) count_pending_required_def logApprovalActivity_frame)
  have apr': "loan_approvals d' = loan_approvals (snd (snd outcome))"
    by (simp add: eq(3) logApprovalActivity_frame)
  have c0: "select_loan_application applicationId d' \<noteq> []"
    unfolding sel' outcome_def
    by (simp add: apply_decision_def Let_def select_set_application_approved
        select_set_application_pending_approval select_set_application_rejected sel1
        select_loan_application_cong [OF createLoanAccount_frame(2)]
        select_loan_application_cong [OF cancel_pending_approvals_frame(1)])
  have c1: "application_status result = ''approved'' \<and> workflow_complete result
         \<and> (\<forall>a \<in> set (select_loan_application applicationId d').
               la_status a = ''approved'' \<and> la_approved_at a = Some (clock d))"
    if dec: "decision approvalData = ''approved''"
      and z: "count_pending_required applicationId d' = 0"
  proof -
    have "count_pending_required applicationId d1 = 0"
    proof (rule ccontr)
      assume nz: "count_pending_required applicationId d1 \<noteq> 0"
      have "count_pending_required applicationId d'
              = count_pending_required applicationId d1"
        unfolding cnt' outcome_def apply_decision_approved_pending [OF dec nz]
        by (simp add: count_pending_required_def set_application_frame)
      with z nz show False by simp
    qed
    then have out: "outcome = (''approved'', Some 0,
            createLoanAccount application (set_application_approved applicationId d1))"
      unfolding outcome_def by (rule apply_decision_approved_complete [OF dec])
    show ?thesis
      unfolding sel' eq(1) eq(2) out
      by (simp add: dec select_loan_application_cong [OF createLoanAccount_frame(2)]
          select_set_application_approved sel1 clock1)
  qed
  have c2: "application_status result = ''pending_approval'' \<and> \<not> workflow_complete result
         \<and> (\<forall>a \<in> set (select_loan_application applicationId d').
               la_status a = ''pending_approval'')"
    if dec: "decision approvalData = ''approved''"
      and nz: "count_pending_required applicationId d' \<noteq> 0"
  proof -
    have nz1: "count_pending_required applicationId d1 \<noteq> 0"
    proof
      assume z: "count_pending_required applicationId d1 = 0"
      have "count_pending_required applicationId d'
              = count_pending_required applicationId d1"
        unfolding cnt' outcome_def apply_decision_approved_complete [OF dec z]
        by (simp add: count_pending_required_def set_application_frame createLoanAccount_frame)
      with z nz show False by simp
    qed
    have out: "outcome = (''pending_approval'', Some (count_pending_required applicationId d1),
            set_application_pending_approval applicationId d1)"
      unfolding outcome_def by (rule apply_decision_approved_pending [OF dec nz1])
    show ?thesis
      unfolding sel' eq(1) eq(2) out
      using nz1 by (simp add: select_set_application_pending_approval sel1)
  qed
  have c3: "application_status result = ''rejected'' \<and> \<not> workflow_complete result
         \<and> (\<forall>a \<in> set (select_loan_application applicationId d').
               la_status a = ''rejected'' \<and> la_rejected_at a = Some (clock d)
               \<and> la_rejection_reason a = rejection_reason approvalData)
         \<and> length (loan_approvals d') = length (loan_approvals d)
         \<and> (\<forall>i < length (loan_approvals d).
               ap_loan_application_id (loan_approvals d ! i) = applicationId
               \<and> ap_status (loan_approvals d ! i) = ''pending''
               \<and> ap_id (loan_approvals d ! i)
                   \<noteq> ap_id (hd (select_pending_approval applicationId approvalLevel d))
               \<longrightarrow> ap_status (loan_approvals d' ! i) = ''cancelled'')
         \<and> (\<forall>r \<in> set (loan_approvals d').
               ap_loan_application_id r = applicationId \<longrightarrow> ap_status r \<noteq> ''pending'')
         \<and> (\<forall>lvl. select_pending_approval applicationId lvl d' = [])"
    if dec: "decision approvalData = ''rejected''"
  proof -
    define d2 where "d2 = set_application_rejected (rejection_reason approvalData) applicationId d1"
    have out: "outcome = (''rejected'', None, cancel_pending_approvals applicationId d2)"
      unfolding outcome_def d2_def by (rule apply_decision_rejected [OF dec])
    have ap2: "loan_approvals d2 = loan_approvals d1"
      by (simp add: d2_def set_application_frame)
    have len1: "length (loan_approvals d1) = length (loan_approvals d)"
      by (simp add: d1_def update_approval_decision_rows)
    have p1: "application_status result = ''rejected'' \<and> \<not> workflow_complete result"
      by (simp add: eq(1) eq(2) out)
    have p2: "\<forall>a \<in> set (select_loan_application applicationId d').
               la_status a = ''rejected'' \<and> la_rejected_at a = Some (clock d)
               \<and> la_rejection_reason a = rejection_reason approvalData"
      unfolding sel' out
      by (simp add: select_loan_application_cong [OF cancel_pending_approvals_frame(1)]
          d2_def select_set_application_rejected sel1 clock1)
    have p3: "length (loan_approvals d') = length (loan_approvals d)"
      by (simp add: apr' out cancel_pending_approvals_frame ap2 len1)
    have p4: "ap_status (loan_approvals d' ! i) = ''cancelled''"
      if i: "i < length (loan_approvals d)"
        and a: "ap_loan_application_id (loan_approvals d ! i) = applicationId"
        and b: "ap_status (loan_approvals d ! i) = ''pending''"
        and c: "ap_id (loan_approvals d ! i)
                   \<noteq> ap_id (hd (select_pending_approval applicationId approvalLevel d))"
      for i
    proof -
      have same: "loan_approvals d2 ! i = loan_approvals d ! i"
        using i c by (simp add: ap2 d1_def update_approval_decision_rows pen)
      have "i < length (loan_approvals d2)" using i by (simp add: ap2 len1)
      then show ?thesis
        unfolding apr' out using a b same
        by (simp add: cancel_pending_approvals_nth)
    qed
    have p5: "\<forall>r \<in> set (loan_approvals d').
               ap_loan_application_id r = applicationId \<longrightarrow> ap_status r \<noteq> ''pending''"
      unfolding apr' out using cancel_pending_approvals_none_pending by simp
    have p6: "\<forall>lvl. select_pending_approval applicationId lvl d' = []"
      using p5 by (auto simp: select_pending_approval_def filter_empty_conv)
    from p1 p2 p3 p4 p5 p6 show ?thesis by blast
  qed
  from c0 c1 c2 c3 show ?thesis by blast
qed

lemma succeeded_Inr:
  "(case fst (x :: (error + 'a) \<times> db) of Inr _ \<Rightarrow> True | Inl _ \<Rightarrow> False)
   \<Longrightarrow> \<exists>r. x = (Inr r, snd x)"
  by (cases x) (auto split: sum.splits)

theorem processApproval_decision_outcome_witness:
  "\<exists>r1 d1 r2 d2 r3 d3.
     processApproval 1 1 example_approve 10 example_db = (Inr r1, d1)
     \<and> application_status r1 = ''pending_approval'' \<and> \<not> workflow_complete r1
     \<and> processApproval 1 2 example_approve 11 d1 = (Inr r2, d2)
     \<and> application_status r2 = ''approved'' \<and> workflow_complete r2
     \<and> processApproval 1 1 example_reject 10 example_db = (Inr r3, d3)
     \<and> application_status r3 = ''rejected''
     \<and> ap_status (loan_approvals d3 ! 1) = ''cancelled''"
proof -
  have "case fst (processApproval 1 1 example_approve 10 example_db) of
          Inr _ \<Rightarrow> True | Inl _ \<Rightarrow> False"
    by code_simp
  then obtain r1 where
    e1: "processApproval 1 1 example_approve 10 example_db
           = (Inr r1, snd (processApproval 1 1 example_approve 10 example_db))"
    using succeeded_Inr by blast
  have dec: "decision example_approve = ''approved''" "decision example_reject = ''rejected''"
    by (simp_all add: example_approve_def example_reject_def)
  have n1: "count_pending_required 1 (snd (processApproval 1 1 example_approve 10 example_db)) \<noteq> 0"
    by code_simp
  have s1: "application_status r1 = ''pending_approval'' \<and> \<not> workflow_complete r1"
    using processApproval_decision_outcome [OF e1] dec n1 by blast
  have "case fst (processApproval 1 2 example_approve 11
                    (snd (processApproval 1 1 example_approve 10 example_db))) of
          Inr _ \<Rightarrow> True | Inl _ \<Rightarrow> False"
    by code_simp
  then obtain r2 where
    e2: "processApproval 1 2 example_approve 11
           (snd (processApproval 1 1 example_approve 10 example_db))
         = (Inr r2, snd (processApproval 1 2 example_approve 11
                      (snd (processApproval 1 1 example_approve 10 example_db))))"
    using succeeded_Inr by blast
  have n2: "count_pending_required 1
              (snd (processApproval 1 2 example_approve 11
                      (snd (processApproval 1 1 example_approve 10 example_db)))) = 0"
    by code_simp
  have s2: "application_status r2 = ''approved'' \<and> workflow_complete r2"
    using processApproval_decision_outcome [OF e2] dec n2 by blast
  have "case fst (processApproval 1 1 example_reject 10 example_db) of
          Inr _ \<Rightarrow> True | Inl _ \<Rightarrow> False"
    by code_simp
  then obtain r3 where
    e3: "processApproval 1 1 example_reject 10 example_db
           = (Inr r3, snd (processApproval 1 1 example_reject 10 example_db))"
    using succeeded_Inr by blast
  have other: "1 < length (loan_approvals example_db)"
    "ap_loan_application_id (loan_approvals example_db ! 1) = 1"
    "ap_status (loan_approvals example_db ! 1) = ''pending''"
    "ap_id (loan_approvals example_db ! 1) \<noteq> ap_id (hd (select_pending_approval 1 1 example_db))"
    by code_simp+
  have s3: "application_status r3 = ''rejected''
            \<and> ap_status (loan_approvals (snd (processApproval 1 1 example_reject 10 example_db)) ! 1)
                = ''cancelled''"
    using processApproval_decision_outcome [OF e3] dec other by blast
  from e1 s1 e2 s2 e3 s3 show ?thesis by blast
qed















lemma processApproval_failure_keeps_db:
  "fst (processApproval applicationId approvalLevel approvalData approvedBy d) = Inl e \<Longrightarrow>
   snd (processApproval applicationId approvalLevel approvalData approvedBy d) = d"
  by (auto simp: processApproval_def transaction_def split: prod.splits sum.splits)

lemma bulkApprove_loop_outcomes:
  "bulkApprove_loop items approvedBy results d =
     (\<lparr>successful = successful results @ successes_of (item_outcomes items approvedBy d),
       failed = failed results @ failures_of (item_outcomes items approvedBy d),
       summary =
         \<lparr>total = total (summary results),
          approved = approved (summary results)
            + count_succeeded (\<lambda>i. bi_decision i = ''approved'') (item_outcomes items approvedBy d),
          rejected = rejected (summary results)
            + count_succeeded (\<lambda>i. bi_decision i \<noteq> ''approved'') (item_outcomes items approvedBy d),
          failed_count = failed_count (summary results)
            + length (failures_of (item_outcomes items approvedBy d))\<rparr>\<rparr>,
      run_items items approvedBy d)"
proof (induction items arbitrary: results d)
  case Nil
  show ?case by (simp add: successes_of_def failures_of_def count_succeeded_def)
next
  case (Cons appData rest)
  show ?case
  proof (cases "run_item appData approvedBy d")
    case (Pair r d')
    show ?thesis
    proof (cases r)
      case (Inl e)
      with Pair show ?thesis
        by (simp add: Cons.IH successes_of_def failures_of_def count_succeeded_def)
    next
      case (Inr result)
      with Pair show ?thesis
        by (simp add: Cons.IH successes_of_def failures_of_def count_succeeded_def)
    qed
  qed
qed

lemma item_outcomes_append:
  "item_outcomes (xs @ ys) approvedBy d =
     item_outcomes xs approvedBy d @ item_outcomes ys approvedBy (run_items xs approvedBy d)"
  by (induction xs arbitrary: d) simp_all

lemma run_items_append:
  "run_items (xs @ ys) approvedBy d = run_items ys approvedBy (run_items xs approvedBy d)"
  by (induction xs arbitrary: d) simp_all

lemma length_item_outcomes: "length (item_outcomes items approvedBy d) = length items"
  by (induction items arbitrary: d) simp_all

lemma successes_failures_length:
  "length (successes_of outs) + length (failures_of outs) = length outs"
  "count_succeeded (\<lambda>i. P i) outs + count_succeeded (\<lambda>i. \<not> P i) outs = length (successes_of outs)"
  by (induction outs) (auto simp: successes_of_def failures_of_def count_succeeded_def split: sum.splits)


text \<open>
  C7. \<open>bulkApprove\<close> returns exactly the per-item outcomes: every item is run by
  \<open>processApproval\<close> in its own transaction on the database the items before it left,
  the successes and the failures are collected in order, and the summary counts them
  (\<open>rejected\<close> counts the successful items whose decision is not \<open>approved\<close>). No item
  is skipped: successes and failures together are as many as the items. An item that
  fails changes nothing for the others: without it the batch ends in the same database
  with the same successes, and the failures differ by its entry only.
\<close>

theorem bulkApprove_per_item:
  "bulkApprove items approvedBy d =
     (\<lparr>successful = successes_of (item_outcomes items approvedBy d),
       failed = failures_of (item_outcomes items approvedBy d),
       summary =
         \<lparr>total = length items,
          approved = count_succeeded (\<lambda>i. bi_decision i = ''approved'')
                       (item_outcomes items approvedBy d),
          rejected = count_succeeded (\<lambda>i. bi_decision i \<noteq> ''approved'')
                       (item_outcomes items approvedBy d),
          failed_count = length (failures_of (item_outcomes items approvedBy d))\<rparr>\<rparr>,
      run_items items approvedBy d)
   \<and> length (successful (fst (bulkApprove items approvedBy d)))
       + length (failed (fst (bulkApprove items approvedBy d))) = length items
   \<and> approved (summary (fst (bulkApprove items approvedBy d)))
       + rejected (summary (fst (bulkApprove items approvedBy d)))
       = length (successful (fst (bulkApprove items approvedBy d)))
   \<and> (fst (run_item appData approvedBy (snd (bulkApprove xs approvedBy d))) = Inl e \<longrightarrow>
        snd (bulkApprove (xs @ appData # ys) approvedBy d) = snd (bulkApprove (xs @ ys) approvedBy d)
        \<and> successful (fst (bulkApprove (xs @ appData # ys) approvedBy d))
            = successful (fst (bulkApprove (xs @ ys) approvedBy d))
        \<and> failed (fst (bulkApprove (xs @ appData # ys) approvedBy d))
            = failed (fst (bulkApprove xs approvedBy d))
              @ (bi_application_id appData, message e)
              # drop (length (failed (fst (bulkApprove xs approvedBy d))))
                  (failed (fst (bulkApprove (xs @ ys) approvedBy d))))"
proof -
  have char: "bulkApprove its approvedBy d =
     (\<lparr>successful = successes_of (item_outcomes its approvedBy d),
       failed = failures_of (item_outcomes its approvedBy d),
       summary =
         \<lparr>total = length its,
          approved = count_succeeded (\<lambda>i. bi_decision i = ''approved'')
                       (item_outcomes its approvedBy d),
          rejected = count_succeeded (\<lambda>i. bi_decision i \<noteq> ''approved'')
                       (item_outcomes its approvedBy d),
          failed_count = length (failures_of (item_outcomes its approvedBy d))\<rparr>\<rparr>,
      run_items its approvedBy d)" for its
    by (simp add: bulkApprove_def bulkApprove_loop_outcomes)
  have lens: "length (successful (fst (bulkApprove items approvedBy d)))
       + length (failed (fst (bulkApprove items approvedBy d))) = length items"
    by (simp add: char successes_failures_length length_item_outcomes)
  have counts: "approved (summary (fst (bulkApprove items approvedBy d)))
       + rejected (summary (fst (bulkApprove items approvedBy d)))
       = length (successful (fst (bulkApprove items approvedBy d)))"
    by (simp add: char successes_failures_length)
  have indep: "snd (bulkApprove (xs @ appData # ys) approvedBy d) = snd (bulkApprove (xs @ ys) approvedBy d)
        \<and> successful (fst (bulkApprove (xs @ appData # ys) approvedBy d))
            = successful (fst (bulkApprove (xs @ ys) approvedBy d))
        \<and> failed (fst (bulkApprove (xs @ appData # ys) approvedBy d))
            = failed (fst (bulkApprove xs approvedBy d))
              @ (bi_application_id appData, message e)
              # drop (length (failed (fst (bulkApprove xs approvedBy d))))
                  (failed (fst (bulkApprove (xs @ ys) approvedBy d)))"
    if fails: "fst (run_item appData approvedBy (snd (bulkApprove xs approvedBy d))) = Inl e"
  proof -
    define dx where "dx = run_items xs approvedBy d"
    have f: "fst (run_item appData approvedBy dx) = Inl e"
      using fails by (simp add: char dx_def)
    then have keep: "snd (run_item appData approvedBy dx) = dx"
      by (rule processApproval_failure_keeps_db)
    have outs: "item_outcomes (xs @ appData # ys) approvedBy d
                  = item_outcomes xs approvedBy d @ (appData, Inl e) # item_outcomes ys approvedBy dx"
      by (simp add: item_outcomes_append dx_def [symmetric] f keep)
    have outs': "item_outcomes (xs @ ys) approvedBy d
                  = item_outcomes xs approvedBy d @ item_outcomes ys approvedBy dx"
      by (simp add: item_outcomes_append dx_def)
    have run: "run_items (xs @ appData # ys) approvedBy d = run_items (xs @ ys) approvedBy d"
      by (simp add: run_items_append dx_def [symmetric] keep)
    show ?thesis
      by (simp add: char run outs outs' successes_of_def failures_of_def)
  qed
  from char [of items] lens counts indep show ?thesis by blast
qed

theorem bulkApprove_per_item_witness:
  "snd (bulkApprove [example_valid_item, example_missing_item] 10 example_db)
     = snd (bulkApprove [example_valid_item] 10 example_db)
   \<and> map la_status
        (loan_applications (snd (bulkApprove [example_valid_item, example_missing_item] 10 example_db)))
       = [''pending_approval'', ''submitted'']
   \<and> map fst (successful (fst (bulkApprove [example_valid_item, example_missing_item] 10 example_db)))
       = [1]
   \<and> failed (fst (bulkApprove [example_valid_item, example_missing_item] 10 example_db))
       = [(99, ''Loan application not found'')]
   \<and> summary (fst (bulkApprove [example_valid_item, example_missing_item] 10 example_db))
       = \<lparr>total = 2, approved = 1, rejected = 0, failed_count = 1\<rparr>"
proof -
  have fails: "fst (run_item example_missing_item 10 (snd (bulkApprove [example_valid_item] 10 example_db)))
                 = Inl LoanApplicationNotFound"
    by code_simp
  have one: "map la_status (loan_applications (snd (bulkApprove [example_valid_item] 10 example_db)))
               = [''pending_approval'', ''submitted'']"
    "map fst (successful (fst (bulkApprove [example_valid_item] 10 example_db))) = [1]"
    "failed (fst (bulkApprove [example_valid_item] 10 example_db)) = []"
    by code_simp+
  have two: "failed (fst (bulkApprove [example_valid_item, example_missing_item] 10 example_db))
               = [(99, ''Loan application not found'')]"
    "total (summary (fst (bulkApprove [example_valid_item, example_missing_item] 10 example_db))) = 2"
    "failed_count (summary (fst (bulkApprove [example_valid_item, example_missing_item] 10 example_db))) = 1"
    "approved (summary (fst (bulkApprove [example_valid_item, example_missing_item] 10 example_db))) = 1"
    by code_simp+
  note inst = bulkApprove_per_item
    [of "[example_valid_item, example_missing_item]" 10 example_db example_missing_item
        "[example_valid_item]" LoanApplicationNotFound "[]"]
  note removal = inst [THEN conjunct2, THEN conjunct2, THEN conjunct2, THEN mp, OF fails]
  from removal have
    same: "snd (bulkApprove [example_valid_item, example_missing_item] 10 example_db)
             = snd (bulkApprove [example_valid_item] 10 example_db)"
    and succ: "successful (fst (bulkApprove [example_valid_item, example_missing_item] 10 example_db))
             = successful (fst (bulkApprove [example_valid_item] 10 example_db))"
    by simp_all
  from inst [THEN conjunct2, THEN conjunct2, THEN conjunct1] have cnt:
    "approved (summary (fst (bulkApprove [example_valid_item, example_missing_item] 10 example_db)))
     + rejected (summary (fst (bulkApprove [example_valid_item, example_missing_item] 10 example_db)))
     = length (successful (fst (bulkApprove [example_valid_item, example_missing_item] 10 example_db)))"
    .
  have len: "length (successful (fst (bulkApprove [example_valid_item] 10 example_db))) = 1"
    using one(2) by (metis length_map length_Cons list.size(3) One_nat_def)
  have rej: "rejected (summary (fst (bulkApprove [example_valid_item, example_missing_item] 10 example_db))) = 0"
    using cnt two(4) succ len by simp
  have summ: "summary (fst (bulkApprove [example_valid_item, example_missing_item] 10 example_db))
       = \<lparr>total = 2, approved = 1, rejected = 0, failed_count = 1\<rparr>"
    using two rej by (cases "summary (fst (bulkApprove [example_valid_item, example_missing_item] 10 example_db))") simp
  from same succ one two summ show ?thesis by simp
qed

section \<open>Properties of the risk scorer\<close>








text \<open>
  Where the exact weighted average is a half-integer, the average accumulated in
  \<open>binary64\<close> can fall just below it: these scores average 43.5, which rounds to 44, and
  the code returns 43.
\<close>

lemma overall_score_half_integer_example:
  "calculateOverallRiskScore binary64
     [(''credit_score'', Fin 30), (''payment_history'', Fin 40), (''existing_loans'', Fin 30),
      (''income_stability'', Fin 60), (''debt_to_income_ratio'', Fin 48),
      (''employment_history'', Fin 90), (''collateral_value'', Fin 70),
      (''guarantor_strength'', Fin 10), (''kyc_completeness'', Fin 70)] = Fin 43
   \<and> calculateOverallRiskScore exact
     [(''credit_score'', Fin 30), (''payment_history'', Fin 40), (''existing_loans'', Fin 30),
      (''income_stability'', Fin 60), (''debt_to_income_ratio'', Fin 48),
      (''employment_history'', Fin 90), (''collateral_value'', Fin 70),
      (''guarantor_strength'', Fin 10), (''kyc_completeness'', Fin 70)] = Fin 44"
  by code_simp



lemma performRiskAssessment_not_found:
  assumes "select_application_for_assessment applicationId d = []"
  shows "performRiskAssessment rnd applicationId assessedBy random1 random2 d
           = (Inl LoanApplicationNotFound, d)"
  using assms
  by (simp add: performRiskAssessment_def transaction_def performRiskAssessment_callback_def)

lemma performRiskAssessment_found:
  assumes "select_application_for_assessment applicationId d = application # rest"
  shows "performRiskAssessment rnd applicationId assessedBy random1 random2 d =
     (let customerId = la_customer_id (aa_application application);
          riskFactorScores =
            calculateRiskFactorScores rnd application (getCustomerFinancialHistory customerId);
          overallScore = calculateOverallRiskScore rnd riskFactorScores;
          riskLevel = determineRiskLevel overallScore;
          saved = \<lparr>ra_id = loan_risk_assessments_id_seq d,
                    ra_loan_application_id = applicationId,
                    ra_customer_id = customerId,
                    ra_overall_score = overallScore,
                    ra_risk_level = riskLevel,
                    ra_risk_factors = riskFactorScores,
                    ra_recommendations =
                      generateRecommendations riskLevel riskFactorScores application,
                    ra_ai_insights =
                      \<lparr>fraud_score = calculateFraudScore rnd application,
                       behavioral_score = calculateBehavioralScore rnd random1,
                       market_risk_score = calculateMarketRiskScore rnd random2,
                       ai_recommendations =
                         [''Consider seasonal income variations for self-employed applicants'',
                          ''Monitor for early payment indicators'',
                          ''Assess local economic conditions impact'']\<rparr>,
                    ra_assessed_by = assessedBy,
                    ra_created_at = clock d\<rparr>
      in (Inr saved,
          d\<lparr>loan_risk_assessments := loan_risk_assessments d @ [saved],
            loan_risk_assessments_id_seq := Suc (loan_risk_assessments_id_seq d),
            audit_logs := audit_logs d @
              [\<lparr>al_user_id = Some assessedBy, al_action = ''risk_assessment_completed'',
                al_resource = ''loan_risk_assessment'', al_resource_id = applicationId,
                al_details = RiskAssessmentDetails riskLevel overallScore
                               (loan_risk_assessments_id_seq d)\<rparr>]\<rparr>))"
  using assms
  by (simp add: performRiskAssessment_def transaction_def performRiskAssessment_callback_def
      saveRiskAssessment_def logRiskAssessmentActivity_def generateAIInsights_def Let_def)

text \<open>
  C10. Two runs of \<open>performRiskAssessment\<close> on the same database that differ in what
  \<open>Math.random()\<close> returns fail alike or succeed alike; when they succeed, the factor
  scores, the overall score and the risk level are the same, the overall score and the
  level are computed from the factor scores alone, and the saved assessments are equal
  apart from \<open>behavioral_score\<close> and \<open>market_risk_score\<close> inside \<open>ai_insights\<close>. The
  audit entries are the same, and so are the assessments saved earlier.
\<close>

theorem performRiskAssessment_random_only_in_ai_insights:
  "(case (fst (performRiskAssessment rnd applicationId assessedBy random1 random2 d),
          fst (performRiskAssessment rnd applicationId assessedBy random1' random2' d)) of
      (Inr s, Inr t) \<Rightarrow>
        ra_risk_factors s = ra_risk_factors t
        \<and> ra_overall_score s = ra_overall_score t
        \<and> ra_risk_level s = ra_risk_level t
        \<and> ra_overall_score s = calculateOverallRiskScore rnd (ra_risk_factors s)
        \<and> ra_risk_level s = determineRiskLevel (ra_overall_score s)
        \<and> s = t\<lparr>ra_ai_insights :=
                   (ra_ai_insights t)\<lparr>behavioral_score := calculateBehavioralScore rnd random1,
                                      market_risk_score := calculateMarketRiskScore rnd random2\<rparr>\<rparr>
    | (Inl e, Inl e') \<Rightarrow> e = e'
    | _ \<Rightarrow> False)
   \<and> audit_logs (snd (performRiskAssessment rnd applicationId assessedBy random1 random2 d))
       = audit_logs (snd (performRiskAssessment rnd applicationId assessedBy random1' random2' d))
   \<and> butlast (loan_risk_assessments
                 (snd (performRiskAssessment rnd applicationId assessedBy random1 random2 d)))
       = butlast (loan_risk_assessments
                 (snd (performRiskAssessment rnd applicationId assessedBy random1' random2' d)))"
proof (cases "select_application_for_assessment applicationId d")
  case Nil
  show ?thesis by (simp add: performRiskAssessment_not_found [OF Nil])
next
  case (Cons application rest)
  show ?thesis by (simp add: performRiskAssessment_found [OF Cons] Let_def)
qed

section \<open>Properties of the schedule calculator\<close>

































end
